theory Spec2Isabelle
  imports Complex_Main "HOL-Library.AList" "HOL-Library.Log_Nat"
begin

section \<open>Data model\<close>

text \<open>
  The commission engine of the marketplace back office: \<^verbatim>\<open>commissionService.ts\<close>,
  \<^verbatim>\<open>orderService.ts\<close> and \<^verbatim>\<open>processWithdrawal\<close> of \<^verbatim>\<open>adminCommissionController.ts\<close>.

  JavaScript numbers are IEEE 754 doubles: a finite double is a rational, and every
  arithmetic operation of the services is the exact result rounded to the nearest double
  (section ``Double-precision arithmetic'').
  Mongo ObjectIds are natural numbers; an optional field (\<^verbatim>\<open>undefined\<close>/\<^verbatim>\<open>null\<close>) is an
  \<open>option\<close>; the string-valued status enums stay strings, as the code compares them.
\<close>

type_synonym objectId = nat

datatype userType = SELLER | DELIVERY_BOY

record seller =
  seller_commission :: "rat option"      \<comment> \<open>\<^verbatim>\<open>seller.commission\<close>, read by \<^verbatim>\<open>createCommissions\<close>\<close>
  seller_commissionRate :: "rat option"  \<comment> \<open>\<^verbatim>\<open>seller.commissionRate\<close>, read by \<^verbatim>\<open>getSellerCommissionRate\<close>\<close>
  seller_balance :: rat

record delivery =
  delivery_commissionRate :: "rat option"
  delivery_balance :: rat

record category =
  category_name :: string
  category_commissionRate :: "rat option"

record subCategory =
  subCategory_name :: string
  subCategory_commissionRate :: "rat option"

record product =
  productName :: string
  product_subSubCategory :: "objectId option"
  product_subcategory :: "objectId option"
  product_category :: "objectId option"

record orderItem =
  item_id :: objectId
  item_order :: objectId
  item_seller :: objectId
  item_product :: objectId
  item_total :: rat

record order =
  orderNumber :: string
  order_status :: string
  order_items :: "objectId list"
  order_deliveryBoy :: "objectId option"
  order_subtotal :: rat
  order_deliveryDistanceKm :: "rat option"

record deliveryConfig =
  isDistanceBased :: "bool option"
  deliveryBoyKmRate :: "rat option"

record appSettings =
  settings_deliveryConfig :: "deliveryConfig option"

record commission =
  c_order :: objectId
  c_orderItem :: "objectId option"
  c_seller :: "objectId option"
  c_deliveryBoy :: "objectId option"
  c_type :: "userType option"
  c_orderAmount :: rat
  c_commissionRate :: rat
  c_commissionAmount :: rat
  c_status :: string
  c_paidAt :: "nat option"

text \<open>The description strings of the ledger rows, kept symbolic (the code interpolates
  order numbers and amounts into them).\<close>

datatype description =
    SaleProceeds string rat       \<comment> \<open>\<^verbatim>\<open>Sale proceeds for order N (Commission: A)\<close>\<close>
  | CommissionForOrder string     \<comment> \<open>\<^verbatim>\<open>Commission for order N\<close>\<close>
  | CommissionReversal            \<comment> \<open>\<^verbatim>\<open>Commission reversal for cancelled order\<close>\<close>
  | WithdrawalRejected objectId   \<comment> \<open>\<^verbatim>\<open>Withdrawal Rejected: ID\<close>\<close>
  | EarningsFromOrder "string + objectId"
      \<comment> \<open>\<^verbatim>\<open>Earnings from Order #N\<close>, \<open>N\<close> the order number or \<^verbatim>\<open>ORDER-id\<close>\<close>

record walletTransaction =
  wt_userId :: objectId
  wt_userType :: "userType option"
  wt_amount :: rat
  wt_type :: string                 \<comment> \<open>\<^verbatim>\<open>Credit\<close> or \<^verbatim>\<open>Debit\<close>\<close>
  wt_description :: description
  wt_relatedOrder :: "objectId option"
  wt_relatedCommission :: "nat option"
  wt_status :: string

record withdrawRequest =
  w_userId :: objectId
  w_userType :: userType
  w_amount :: rat
  w_status :: string
  w_remarks :: "string option"
  w_processedAt :: "nat option"

text \<open>The database. Commission documents and ledger rows are kept in creation order; the
  \<^verbatim>\<open>_id\<close> of a Commission is its position in the list.\<close>

record db =
  sellers :: "objectId \<rightharpoonup> seller"
  deliveries :: "objectId \<rightharpoonup> delivery"
  categories :: "objectId \<rightharpoonup> category"
  subCategories :: "objectId \<rightharpoonup> subCategory"
  products :: "objectId \<rightharpoonup> product"
  orderItems :: "objectId \<rightharpoonup> orderItem"
  orders :: "objectId \<rightharpoonup> order"
  settings :: "appSettings option"
  commissions :: "commission list"
  walletTransactions :: "walletTransaction list"
  withdrawRequests :: "objectId \<rightharpoonup> withdrawRequest"

section \<open>Double-precision arithmetic\<close>

text \<open>
  The binary64 format has a significand of 53 bits. \<open>fl x\<close> is the double nearest to the
  rational \<open>x\<close>, a tie going to the even significand, and \<^verbatim>\<open>+ - * /\<close> on numbers are
  the exact operation followed by \<open>fl\<close>. The model covers the normal range of the format:
  overflow to \<^verbatim>\<open>Infinity\<close>, subnormal results, signed zero and \<^verbatim>\<open>NaN\<close> are not represented
  (the services divide by the constant 100 only).
\<close>

text \<open>The integer \<open>e\<close> with \<open>2 ^ e \<le> x < 2 ^ (e + 1)\<close>, for a positive \<open>x\<close>.\<close>

definition floorLog2 :: "rat \<Rightarrow> int" where
  "floorLog2 x = (if x \<ge> 1 then bitlen \<lfloor>x\<rfloor> - 1 else - bitlen (\<lceil>1 / x\<rceil> - 1))"

definition pow2 :: "int \<Rightarrow> rat" where
  "pow2 e = (if e \<ge> 0 then 2 ^ nat e else 1 / 2 ^ nat (- e))"

definition roundHalfEven :: "rat \<Rightarrow> int" where
  "roundHalfEven q =
     (let f = \<lfloor>q\<rfloor>; d = q - of_int f
      in if d < 1 / 2 then f else if d > 1 / 2 then f + 1 else if even f then f else f + 1)"

definition fl :: "rat \<Rightarrow> rat" where
  "fl x =
     (if x = 0 then 0
      else (let ulp = pow2 (floorLog2 \<bar>x\<bar> - 52)
            in of_int (roundHalfEven (x / ulp)) * ulp))"

text \<open>Half a unit in the last place of the double nearest to \<open>x\<close>.\<close>

definition halfUlp :: "rat \<Rightarrow> rat" where
  "halfUlp x = (if x = 0 then 0 else pow2 (floorLog2 \<bar>x\<bar> - 52) / 2)"

definition fadd :: "rat \<Rightarrow> rat \<Rightarrow> rat" where
  "fadd a b = fl (a + b)"

definition fsub :: "rat \<Rightarrow> rat \<Rightarrow> rat" where
  "fsub a b = fl (a - b)"

definition fmul :: "rat \<Rightarrow> rat \<Rightarrow> rat" where
  "fmul a b = fl (a * b)"

definition fdiv :: "rat \<Rightarrow> rat \<Rightarrow> rat" where
  "fdiv a b = fl (a / b)"

section \<open>Rate resolution (\<^verbatim>\<open>commissionService.ts\<close>)\<close>

text \<open>\<^verbatim>\<open>getSellerCommissionRate\<close>: the \<^verbatim>\<open>throw\<close> for a missing seller is caught by the
  function's own \<^verbatim>\<open>catch\<close>, which returns 10.\<close>

definition getSellerCommissionRate :: "db \<Rightarrow> objectId \<Rightarrow> rat" where
  "getSellerCommissionRate s sellerId =
     (case sellers s sellerId of
        None \<Rightarrow> 10
      | Some sl \<Rightarrow>
          (case seller_commissionRate sl of
             Some r \<Rightarrow> r
           | None \<Rightarrow> 10))"

definition getDeliveryBoyCommissionRate :: "db \<Rightarrow> objectId \<Rightarrow> rat" where
  "getDeliveryBoyCommissionRate s deliveryBoyId =
     (case deliveries s deliveryBoyId of
        None \<Rightarrow> 5
      | Some d \<Rightarrow>
          (case delivery_commissionRate d of
             Some r \<Rightarrow> r
           | None \<Rightarrow> 5))"

section \<open>Commission calculation (\<^verbatim>\<open>calculateOrderCommissions\<close>)\<close>

record sellerCommission =
  sc_amount :: rat
  sc_rate :: rat
  sc_orderAmount :: rat

record deliveryBoyCommission =
  dc_deliveryBoyId :: objectId
  dc_amount :: rat
  dc_rate :: rat
  dc_orderAmount :: rat

record orderCommissions =
  oc_seller :: "(objectId \<times> sellerCommission) list"
  oc_deliveryBoy :: "deliveryBoyCommission option"

text \<open>\<^verbatim>\<open>Math.round\<close>: the integer nearest to the double it is given, a tie going up. It is
  exact; an integer of this size is a double.\<close>

definition Math_round :: "rat \<Rightarrow> int" where
  "Math_round x = \<lfloor>x + 1 / 2\<rfloor>"

text \<open>Line 155: \<^verbatim>\<open>Math.round(commissionAmount * 100) / 100\<close>.\<close>

definition roundTo2Decimals :: "rat \<Rightarrow> rat" where
  "roundTo2Decimals commissionAmount =
     fdiv (of_int (Math_round (fmul commissionAmount 100))) 100"

text \<open>JavaScript truthiness of an optional number: defined and not zero.\<close>

definition truthy :: "rat option \<Rightarrow> bool" where
  "truthy v = (case v of None \<Rightarrow> False | Some x \<Rightarrow> x \<noteq> 0)"

text \<open>The loop over \<^verbatim>\<open>order.items\<close>. The JavaScript \<^verbatim>\<open>Map\<close> keeps its keys in insertion
  order and an existing key keeps its place, which is \<open>AList.update\<close> on an association
  list.\<close>

fun sellerCommissionsLoop ::
  "db \<Rightarrow> objectId list \<Rightarrow> (objectId \<times> sellerCommission) list
     \<Rightarrow> (objectId \<times> sellerCommission) list" where
  "sellerCommissionsLoop s [] m = m"
| "sellerCommissionsLoop s (itemId # rest) m =
     (case orderItems s itemId of
        None \<Rightarrow> sellerCommissionsLoop s rest m
      | Some it \<Rightarrow>
          (let sellerId = item_seller it;
               itemTotal = item_total it;
               commissionRate = getSellerCommissionRate s sellerId;
               commissionAmount = fdiv (fmul itemTotal commissionRate) 100
           in sellerCommissionsLoop s rest
                (case map_of m sellerId of
                   Some existing \<Rightarrow>
                     AList.update sellerId
                       (existing\<lparr>sc_amount := fadd (sc_amount existing) commissionAmount,
                                 sc_orderAmount := fadd (sc_orderAmount existing) itemTotal\<rparr>) m
                 | None \<Rightarrow>
                     AList.update sellerId
                       \<lparr>sc_amount = commissionAmount, sc_rate = commissionRate,
                        sc_orderAmount = itemTotal\<rparr> m)))"

text \<open>The distance-based test of lines 132--137; a missing settings document, a missing
  \<^verbatim>\<open>deliveryConfig\<close> and an exception of \<^verbatim>\<open>getSettings\<close> all leave \<^verbatim>\<open>usedDistanceBased\<close>
  false.\<close>

definition distanceBasedRate :: "db \<Rightarrow> order \<Rightarrow> (rat \<times> rat) option" where
  "distanceBasedRate s ord =
     (case settings s of
        None \<Rightarrow> None
      | Some st \<Rightarrow>
          (case settings_deliveryConfig st of
             None \<Rightarrow> None
           | Some cfg \<Rightarrow>
               (case (deliveryBoyKmRate cfg, order_deliveryDistanceKm ord) of
                  (Some kmRate, Some distKm) \<Rightarrow>
                    if isDistanceBased cfg = Some True \<and> truthy (Some kmRate)
                       \<and> truthy (Some distKm) \<and> distKm > 0
                    then Some (kmRate, fmul distKm kmRate)
                    else None
                | _ \<Rightarrow> None)))"

definition deliveryCommission :: "db \<Rightarrow> order \<Rightarrow> objectId \<Rightarrow> deliveryBoyCommission" where
  "deliveryCommission s ord deliveryBoyId =
     (case distanceBasedRate s ord of
        Some (commissionRate, commissionAmount) \<Rightarrow>
          \<lparr>dc_deliveryBoyId = deliveryBoyId,
           dc_amount = roundTo2Decimals commissionAmount,
           dc_rate = commissionRate,
           dc_orderAmount =
             (case order_deliveryDistanceKm ord of
                Some d \<Rightarrow> if d \<noteq> 0 then d else 0
              | None \<Rightarrow> 0)\<rparr>
      | None \<Rightarrow>
          (let commissionRate = getDeliveryBoyCommissionRate s deliveryBoyId;
               commissionAmount = fdiv (fmul (order_subtotal ord) commissionRate) 100
           in \<lparr>dc_deliveryBoyId = deliveryBoyId,
               dc_amount = roundTo2Decimals commissionAmount,
               dc_rate = commissionRate,
               dc_orderAmount = order_subtotal ord\<rparr>))"

datatype error =
    OrderNotFound            \<comment> \<open>\<^verbatim>\<open>Order not found\<close>\<close>
  | NotDelivered             \<comment> \<open>\<^verbatim>\<open>Commissions can only be distributed for delivered orders\<close>\<close>
  | AlreadyDistributed       \<comment> \<open>\<^verbatim>\<open>Commissions already distributed for this order\<close>\<close>
  | CalculationFailed        \<comment> \<open>\<^verbatim>\<open>Failed to calculate commissions\<close>\<close>
  | SubjectNotFound          \<comment> \<open>raised by the wallet ledger\<close>
  | InsufficientFunds        \<comment> \<open>raised by the wallet ledger\<close>

definition calculateOrderCommissions :: "db \<Rightarrow> objectId \<Rightarrow> error + orderCommissions" where
  "calculateOrderCommissions s orderId =
     (case orders s orderId of
        None \<Rightarrow> Inl OrderNotFound
      | Some ord \<Rightarrow>
          Inr \<lparr>oc_seller = sellerCommissionsLoop s (order_items ord) [],
               oc_deliveryBoy =
                 (case order_deliveryBoy ord of
                    None \<Rightarrow> None
                  | Some deliveryBoyId \<Rightarrow> Some (deliveryCommission s ord deliveryBoyId))\<rparr>)"

section \<open>Wallet ledger\<close>

text \<open>
  Modelled from the spec: \<^verbatim>\<open>creditWallet\<close> and \<^verbatim>\<open>debitWallet\<close> of
  \<^verbatim>\<open>walletManagementService\<close>, which the services import and which is not among the
  sources. Section 4.3 of the specification: a credit appends one WalletTransaction row and
  increments the subject's balance, a debit appends one row and decrements it and fails
  with InsufficientFunds when the amount exceeds the balance; both writes happen or
  neither. The balance lives on the Seller or Delivery document, so a subject whose
  document is absent has no balance to move and the operation fails. The increment and
  the decrement are taken as the specification words them, as exact sums.
\<close>

text \<open>Modelled from the spec: the WalletTransaction row a ledger operation appends.\<close>

definition ledgerRow ::
  "objectId \<Rightarrow> userType option \<Rightarrow> rat \<Rightarrow> string \<Rightarrow> description \<Rightarrow> objectId option
     \<Rightarrow> nat option \<Rightarrow> walletTransaction" where
  "ledgerRow userId userType amount direction descr relatedOrder relatedCommission =
     \<lparr>wt_userId = userId, wt_userType = userType, wt_amount = amount, wt_type = direction,
      wt_description = descr, wt_relatedOrder = relatedOrder,
      wt_relatedCommission = relatedCommission, wt_status = ''Completed''\<rparr>"

text \<open>Modelled from the spec: the subject's cached balance, on the Seller or Delivery
  document named by the subject type (the polymorphic subject of the design notes).\<close>

definition walletBalance :: "db \<Rightarrow> objectId \<Rightarrow> userType option \<Rightarrow> rat option" where
  "walletBalance s userId userType =
     (case userType of
        None \<Rightarrow> None
      | Some SELLER \<Rightarrow> map_option seller_balance (sellers s userId)
      | Some DELIVERY_BOY \<Rightarrow> map_option delivery_balance (deliveries s userId))"

text \<open>Modelled from the spec: the write of the cached balance.\<close>

definition setBalance :: "objectId \<Rightarrow> userType option \<Rightarrow> rat \<Rightarrow> db \<Rightarrow> db" where
  "setBalance userId userType b s =
     (case userType of
        None \<Rightarrow> s
      | Some SELLER \<Rightarrow>
          (case sellers s userId of
             None \<Rightarrow> s
           | Some sl \<Rightarrow> s\<lparr>sellers := (sellers s)(userId \<mapsto> sl\<lparr>seller_balance := b\<rparr>)\<rparr>)
      | Some DELIVERY_BOY \<Rightarrow>
          (case deliveries s userId of
             None \<Rightarrow> s
           | Some d \<Rightarrow> s\<lparr>deliveries := (deliveries s)(userId \<mapsto> d\<lparr>delivery_balance := b\<rparr>)\<rparr>))"

text \<open>Modelled from the spec: \<^verbatim>\<open>creditWallet\<close> of the missing
  \<^verbatim>\<open>walletManagementService\<close>, with the argument order of its callers.\<close>

definition creditWallet ::
  "objectId \<Rightarrow> userType option \<Rightarrow> rat \<Rightarrow> description \<Rightarrow> objectId option \<Rightarrow> nat option
     \<Rightarrow> db \<Rightarrow> error + db" where
  "creditWallet userId userType amount descr relatedOrder relatedCommission s =
     (case walletBalance s userId userType of
        None \<Rightarrow> Inl SubjectNotFound
      | Some b \<Rightarrow>
          Inr ((setBalance userId userType (b + amount) s)
                 \<lparr>walletTransactions := walletTransactions s @
                    [ledgerRow userId userType amount ''Credit'' descr relatedOrder
                       relatedCommission]\<rparr>))"

text \<open>Modelled from the spec: \<^verbatim>\<open>debitWallet\<close> of the missing
  \<^verbatim>\<open>walletManagementService\<close>, with the argument order of its caller and the
  InsufficientFunds guard the specification asks for.\<close>

definition debitWallet ::
  "objectId \<Rightarrow> userType option \<Rightarrow> rat \<Rightarrow> description \<Rightarrow> objectId option
     \<Rightarrow> db \<Rightarrow> error + db" where
  "debitWallet userId userType amount descr relatedOrder s =
     (case walletBalance s userId userType of
        None \<Rightarrow> Inl SubjectNotFound
      | Some b \<Rightarrow>
          if amount > b then Inl InsufficientFunds
          else
            Inr ((setBalance userId userType (b - amount) s)
                   \<lparr>walletTransactions := walletTransactions s @
                      [ledgerRow userId userType amount ''Debit'' descr relatedOrder None]\<rparr>))"

section \<open>Distribution (\<^verbatim>\<open>distributeCommissions\<close>)\<close>

text \<open>\<^verbatim>\<open>new Commission({...})\<close> of lines 212--221 and of lines 242--251.\<close>

definition newSellerCommission ::
  "objectId \<Rightarrow> nat \<Rightarrow> objectId \<Rightarrow> sellerCommission \<Rightarrow> commission" where
  "newSellerCommission orderId now sellerId sellerComm =
     \<lparr>c_order = orderId, c_orderItem = None, c_seller = Some sellerId,
      c_deliveryBoy = None, c_type = Some SELLER,
      c_orderAmount = sc_orderAmount sellerComm,
      c_commissionRate = sc_rate sellerComm,
      c_commissionAmount = sc_amount sellerComm,
      c_status = ''Paid'', c_paidAt = Some now\<rparr>"

definition newDeliveryBoyCommission ::
  "objectId \<Rightarrow> nat \<Rightarrow> deliveryBoyCommission \<Rightarrow> commission" where
  "newDeliveryBoyCommission orderId now dc =
     \<lparr>c_order = orderId, c_orderItem = None, c_seller = None,
      c_deliveryBoy = Some (dc_deliveryBoyId dc), c_type = Some DELIVERY_BOY,
      c_orderAmount = dc_orderAmount dc,
      c_commissionRate = dc_rate dc,
      c_commissionAmount = dc_amount dc,
      c_status = ''Paid'', c_paidAt = Some now\<rparr>"

text \<open>Lines 209--238: one Commission document and one wallet credit per seller entry.
  A failing credit throws, which ends the loop.\<close>

fun creditSellers ::
  "objectId \<Rightarrow> string \<Rightarrow> nat \<Rightarrow> (objectId \<times> sellerCommission) list \<Rightarrow> db \<Rightarrow> error + db" where
  "creditSellers orderId ordNumber now [] s = Inr s"
| "creditSellers orderId ordNumber now ((sellerId, sellerComm) # rest) s =
     (let commissionId = length (commissions s);
          s1 = s\<lparr>commissions := commissions s @
                 [newSellerCommission orderId now sellerId sellerComm]\<rparr>;
          netAmount = fsub (sc_orderAmount sellerComm) (sc_amount sellerComm)
      in case creditWallet sellerId (Some SELLER) netAmount
                (SaleProceeds ordNumber (sc_amount sellerComm)) (Some orderId)
                (Some commissionId) s1 of
           Inl e \<Rightarrow> Inl e
         | Inr s2 \<Rightarrow> creditSellers orderId ordNumber now rest s2)"

text \<open>Lines 241--266.\<close>

definition creditDeliveryBoy ::
  "objectId \<Rightarrow> string \<Rightarrow> nat \<Rightarrow> deliveryBoyCommission option \<Rightarrow> db \<Rightarrow> error + db" where
  "creditDeliveryBoy orderId ordNumber now deliveryBoyComm s =
     (case deliveryBoyComm of
        None \<Rightarrow> Inr s
      | Some dc \<Rightarrow>
          (let commissionId = length (commissions s);
               s1 = s\<lparr>commissions := commissions s @
                      [newDeliveryBoyCommission orderId now dc]\<rparr>
           in creditWallet (dc_deliveryBoyId dc) (Some DELIVERY_BOY) (dc_amount dc)
                (CommissionForOrder ordNumber) (Some orderId) (Some commissionId) s1))"

text \<open>\<^verbatim>\<open>Commission.find({ order: orderId })\<close>.\<close>

definition findCommissions :: "db \<Rightarrow> objectId \<Rightarrow> commission list" where
  "findCommissions s orderId = filter (\<lambda>c. c_order c = orderId) (commissions s)"

text \<open>The body of the \<^verbatim>\<open>try\<close> block, lines 182--266: every \<^verbatim>\<open>throw\<close> is an \<open>Inl\<close>.\<close>

definition distributeBody :: "db \<Rightarrow> objectId \<Rightarrow> nat \<Rightarrow> error + db" where
  "distributeBody s orderId now =
     (case orders s orderId of
        None \<Rightarrow> Inl OrderNotFound
      | Some ord \<Rightarrow>
          if order_status ord \<noteq> ''Delivered'' then Inl NotDelivered
          else if length (findCommissions s orderId) > 0 then Inl AlreadyDistributed
          else
            (case calculateOrderCommissions s orderId of
               Inl e \<Rightarrow> Inl CalculationFailed
             | Inr data \<Rightarrow>
                 (case creditSellers orderId (orderNumber ord) now (oc_seller data) s of
                    Inl e \<Rightarrow> Inl e
                  | Inr s1 \<Rightarrow>
                      creditDeliveryBoy orderId (orderNumber ord) now (oc_deliveryBoy data) s1)))"

text \<open>The transaction: every write of the body goes through the session, so
  \<^verbatim>\<open>abortTransaction\<close> in the \<^verbatim>\<open>catch\<close> leaves the database as it was and
  \<^verbatim>\<open>commitTransaction\<close> publishes the body's final state. The result is the failure or
  the list \<^verbatim>\<open>createdCommissions\<close>, which is what the call appended.\<close>

definition distributeCommissions ::
  "db \<Rightarrow> objectId \<Rightarrow> nat \<Rightarrow> (error + commission list) \<times> db" where
  "distributeCommissions s orderId now =
     (case distributeBody s orderId now of
        Inl e \<Rightarrow> (Inl e, s)
      | Inr s' \<Rightarrow> (Inr (drop (length (commissions s)) (commissions s')), s'))"

section \<open>Reversal (\<^verbatim>\<open>reverseCommissions\<close>)\<close>

datatype reverseMessage = NoCommissionsToReverse | CommissionsReversed

text \<open>The documents found for the order, each with its position in the collection.\<close>

definition findCommissionsIndexed :: "db \<Rightarrow> objectId \<Rightarrow> (nat \<times> commission) list" where
  "findCommissionsIndexed s orderId =
     filter (\<lambda>(i, c). c_order c = orderId) (enumerate 0 (commissions s))"

fun reverseLoop :: "objectId \<Rightarrow> (nat \<times> commission) list \<Rightarrow> db \<Rightarrow> error + db" where
  "reverseLoop orderId [] s = Inr s"
| "reverseLoop orderId ((i, c) # rest) s =
     (if c_status c = ''Paid'' then
        (let s1 = s\<lparr>commissions := (commissions s)[i := c\<lparr>c_status := ''Cancelled''\<rparr>]\<rparr>;
             userId = (if c_type c = Some SELLER then c_seller c else c_deliveryBoy c);
             userType = c_type c
         in case userId of
              None \<Rightarrow> reverseLoop orderId rest s1
            | Some u \<Rightarrow>
                (case debitWallet u userType (c_commissionAmount c) CommissionReversal
                        (Some orderId) s1 of
                   Inl e \<Rightarrow> Inl e
                 | Inr s2 \<Rightarrow> reverseLoop orderId rest s2))
      else reverseLoop orderId rest s)"

definition reverseCommissions :: "db \<Rightarrow> objectId \<Rightarrow> (error + reverseMessage) \<times> db" where
  "reverseCommissions s orderId =
     (let found = findCommissionsIndexed s orderId
      in if length found = 0 then (Inr NoCommissionsToReverse, s)
         else
           (case reverseLoop orderId found s of
              Inl e \<Rightarrow> (Inl e, s)
            | Inr s' \<Rightarrow> (Inr CommissionsReversed, s')))"

section \<open>The eager path (\<^verbatim>\<open>createCommissions\<close> of \<^verbatim>\<open>orderService.ts\<close>)\<close>

text \<open>A level's override applies when its rate is truthy and positive (lines 125, 134,
  143): \<^verbatim>\<open>x.commissionRate && x.commissionRate > 0\<close>.\<close>

definition overrideRate :: "rat option \<Rightarrow> rat option" where
  "overrideRate r =
     (case r of
        None \<Rightarrow> None
      | Some v \<Rightarrow> if truthy (Some v) \<and> v > 0 then Some v else None)"

text \<open>One classification level (lines 123--129, 132--138 and 141--147 have this shape):
  when the product names a document of the level, the document exists and its rate
  qualifies, the rate replaces the current value \<open>cur\<close>.\<close>

definition levelRate ::
  "rat \<Rightarrow> objectId option \<Rightarrow> (objectId \<rightharpoonup> 'a) \<Rightarrow> ('a \<Rightarrow> rat option) \<Rightarrow> rat" where
  "levelRate cur ref findById rateOf =
     (case ref of
        None \<Rightarrow> cur
      | Some cid \<Rightarrow>
          (case findById cid of
             None \<Rightarrow> cur
           | Some doc \<Rightarrow>
               (case overrideRate (rateOf doc) of
                  Some v \<Rightarrow> v
                | None \<Rightarrow> cur)))"

text \<open>Lines 116--160, the variable \<^verbatim>\<open>commissionRate\<close> step by step.\<close>

definition itemCommissionRate :: "db \<Rightarrow> seller \<Rightarrow> orderItem \<Rightarrow> rat" where
  "itemCommissionRate s sl item =
     (let rate0 = 0;
          rate3 =
            (case products s (item_product item) of
               None \<Rightarrow> rate0
             | Some product \<Rightarrow>
                 (let rate1 =
                        levelRate rate0 (product_subSubCategory product) (categories s)
                          category_commissionRate;
                      rate2 =
                        (if rate1 = 0 then
                           levelRate rate1 (product_subcategory product) (subCategories s)
                             subCategory_commissionRate
                         else rate1)
                  in if rate2 = 0 then
                       levelRate rate2 (product_category product) (categories s)
                         category_commissionRate
                     else rate2));
          rate4 =
            (if rate3 = 0 then
               (case seller_commission sl of
                  Some v \<Rightarrow> if v > 0 then v else rate3
                | None \<Rightarrow> rate3)
             else rate3)
      in if rate4 = 0 then 10 else rate4)"

record sellerEarnings =
  se_totalAmount :: rat
  se_commissionAmount :: rat
  se_netEarning :: rat
  se_items :: "orderItem list"

text \<open>First pass, lines 103--193. An item whose seller is not found is skipped.\<close>

fun createFirstPass ::
  "orderItem list \<Rightarrow> (objectId \<times> sellerEarnings) list \<Rightarrow> db
     \<Rightarrow> (objectId \<times> sellerEarnings) list \<times> db" where
  "createFirstPass [] m s = (m, s)"
| "createFirstPass (item # rest) m s =
     (let sellerId = item_seller item
      in case sellers s (item_seller item) of
           None \<Rightarrow> createFirstPass rest m s
         | Some sl \<Rightarrow>
             (let commissionRate = itemCommissionRate s sl item;
                  commissionAmount = fdiv (fmul (item_total item) commissionRate) 100;
                  netEarning = fsub (item_total item) commissionAmount;
                  s1 = s\<lparr>commissions := commissions s @
                         [\<lparr>c_order = item_order item, c_orderItem = Some (item_id item),
                           c_seller = Some (item_seller item), c_deliveryBoy = None,
                           c_type = None, c_orderAmount = item_total item,
                           c_commissionRate = commissionRate,
                           c_commissionAmount = commissionAmount,
                           c_status = ''Pending'', c_paidAt = None\<rparr>]\<rparr>;
                  sellerData =
                    (case map_of m sellerId of
                       Some d \<Rightarrow> d
                     | None \<Rightarrow>
                         \<lparr>se_totalAmount = 0, se_commissionAmount = 0, se_netEarning = 0,
                          se_items = []\<rparr>)
              in createFirstPass rest
                   (AList.update sellerId
                      \<lparr>se_totalAmount = fadd (se_totalAmount sellerData) (item_total item),
                       se_commissionAmount =
                         fadd (se_commissionAmount sellerData) commissionAmount,
                       se_netEarning = fadd (se_netEarning sellerData) netEarning,
                       se_items = se_items sellerData @ [item]\<rparr> m)
                   s1))"

text \<open>Second pass, lines 196--216. The balance is written on the Seller document and the
  ledger row is created directly, with a \<^verbatim>\<open>sellerId\<close> and no subject type.
  \<^verbatim>\<open>items[0]\<close> exists whenever the map has an entry.\<close>

fun createSecondPass ::
  "orderItem list \<Rightarrow> (objectId \<times> sellerEarnings) list \<Rightarrow> db \<Rightarrow> db" where
  "createSecondPass items [] s = s"
| "createSecondPass items ((sellerId, earnings) # rest) s =
     (case sellers s sellerId of
        None \<Rightarrow> createSecondPass items rest s
      | Some sl \<Rightarrow>
          (case items of
             [] \<Rightarrow> s
           | item0 # _ \<Rightarrow>
               (let s1 = s\<lparr>sellers := (sellers s)(sellerId \<mapsto>
                             sl\<lparr>seller_balance :=
                                  fadd (seller_balance sl) (se_netEarning earnings)\<rparr>)\<rparr>;
                    ordNumber =
                      (case orders s1 (item_order item0) of
                         None \<Rightarrow> Inr (item_order item0)
                       | Some ord \<Rightarrow>
                           if orderNumber ord \<noteq> [] then Inl (orderNumber ord)
                           else Inr (item_order item0));
                    s2 = s1\<lparr>walletTransactions := walletTransactions s1 @
                            [\<lparr>wt_userId = sellerId, wt_userType = None,
                              wt_amount = se_netEarning earnings, wt_type = ''Credit'',
                              wt_description = EarningsFromOrder ordNumber,
                              wt_relatedOrder = None, wt_relatedCommission = None,
                              wt_status = ''Completed''\<rparr>]\<rparr>
                in createSecondPass items rest s2)))"

definition createCommissions :: "orderItem list \<Rightarrow> db \<Rightarrow> db" where
  "createCommissions items s =
     (case createFirstPass items [] s of
        (sellerEarningsMap, s1) \<Rightarrow> createSecondPass items sellerEarningsMap s1)"

section \<open>Withdrawals (\<^verbatim>\<open>processWithdrawal\<close>)\<close>

record withdrawalBody =
  body_action :: "string option"
  body_remark :: "string option"
  body_requestId :: "objectId option"
  body_id :: "objectId option"

record response =
  res_status :: nat
  res_success :: bool
  res_message :: string

text \<open>\<^verbatim>\<open>error.message || fallback\<close>. The messages of the errors raised inside the wallet
  ledger are not in the sources; they are given the fallback text of the handler.\<close>

definition errorMessage :: "error \<Rightarrow> string" where
  "errorMessage e =
     (case e of
        OrderNotFound \<Rightarrow> ''Order not found''
      | NotDelivered \<Rightarrow> ''Commissions can only be distributed for delivered orders''
      | AlreadyDistributed \<Rightarrow> ''Commissions already distributed for this order''
      | CalculationFailed \<Rightarrow> ''Failed to calculate commissions''
      | SubjectNotFound \<Rightarrow> ''Processing failed''
      | InsufficientFunds \<Rightarrow> ''Processing failed'')"

text \<open>Lines 457--480, before the session is opened: the validation of the body, the
  lookup of the request and the status check. The result is the early response or the
  loaded document with the id and action.\<close>

definition idToProcess :: "withdrawalBody \<Rightarrow> objectId option" where
  "idToProcess body = (case body_requestId body of Some i \<Rightarrow> Some i | None \<Rightarrow> body_id body)"

definition processWithdrawal_load ::
  "db \<Rightarrow> withdrawalBody \<Rightarrow> response + (objectId \<times> string \<times> withdrawRequest)" where
  "processWithdrawal_load s body =
     (case (idToProcess body, body_action body) of
           (Some i, Some action) \<Rightarrow>
             if action = [] then
               Inl \<lparr>res_status = 400, res_success = False,
                    res_message = ''Request ID and Action are required''\<rparr>
             else
               (case withdrawRequests s i of
                  None \<Rightarrow>
                    Inl \<lparr>res_status = 404, res_success = False,
                         res_message = ''Request not found''\<rparr>
                | Some request \<Rightarrow>
                    if w_status request \<noteq> ''Pending'' then
                      Inl \<lparr>res_status = 400, res_success = False,
                           res_message = ''Request is already processed''\<rparr>
                    else Inr (i, action, request))
         | _ \<Rightarrow>
             Inl \<lparr>res_status = 400, res_success = False,
                  res_message = ''Request ID and Action are required''\<rparr>)"

text \<open>\<^verbatim>\<open>request.save({ session })\<close> writes the paths modified on the loaded document;
  a document without a modified path is not written.\<close>

definition saveRequest ::
  "objectId \<Rightarrow> (withdrawRequest \<Rightarrow> withdrawRequest) option \<Rightarrow> db \<Rightarrow> db" where
  "saveRequest i modified s =
     (case modified of
        None \<Rightarrow> s
      | Some upd \<Rightarrow>
          (case withdrawRequests s i of
             None \<Rightarrow> s
           | Some cur \<Rightarrow> s\<lparr>withdrawRequests := (withdrawRequests s)(i \<mapsto> upd cur)\<rparr>))"

text \<open>Lines 482--524, the transaction, run on the document loaded before it. The status
  is not read again here.\<close>

definition processWithdrawal_transaction ::
  "db \<Rightarrow> objectId \<Rightarrow> string \<Rightarrow> string option \<Rightarrow> withdrawRequest \<Rightarrow> nat \<Rightarrow> response \<times> db" where
  "processWithdrawal_transaction s requestId action remark request now =
     (case
        (if action = ''Approve'' then
           Inr (Some (\<lambda>r. r\<lparr>w_status := ''Approved'', w_processedAt := Some now\<rparr>), s)
         else if action = ''Reject'' then
           (case creditWallet (w_userId request) (Some (w_userType request)) (w_amount request)
                   (WithdrawalRejected requestId) None None s of
              Inl e \<Rightarrow> Inl e
            | Inr s1 \<Rightarrow>
                Inr (Some (\<lambda>r. r\<lparr>w_status := ''Rejected'', w_remarks := remark,
                                 w_processedAt := Some now\<rparr>), s1))
         else Inr (None, s)) of
        Inl e \<Rightarrow>
          (\<lparr>res_status = 500, res_success = False, res_message = errorMessage e\<rparr>, s)
      | Inr (modified, s1) \<Rightarrow>
          (\<lparr>res_status = 200, res_success = True,
            res_message = ''Withdrawal '' @ action @ ''ed successfully''\<rparr>,
           saveRequest requestId modified s1))"

definition processWithdrawal :: "db \<Rightarrow> withdrawalBody \<Rightarrow> nat \<Rightarrow> response \<times> db" where
  "processWithdrawal s body now =
     (case processWithdrawal_load s body of
        Inl res \<Rightarrow> (res, s)
      | Inr (requestId, action, request) \<Rightarrow>
          processWithdrawal_transaction s requestId action (body_remark body) request now)"

text \<open>Two calls for the same request, the second one loading the request before the
  first one's transaction commits and running its own transaction after it.\<close>

definition processWithdrawal_race ::
  "db \<Rightarrow> withdrawalBody \<Rightarrow> withdrawalBody \<Rightarrow> nat \<Rightarrow> response \<times> response \<times> db" where
  "processWithdrawal_race s bodyA bodyB now =
     (let loadedA = processWithdrawal_load s bodyA;
          loadedB = processWithdrawal_load s bodyB;
          (resA, sA) =
            (case loadedA of
               Inl res \<Rightarrow> (res, s)
             | Inr (i, action, request) \<Rightarrow>
                 processWithdrawal_transaction s i action (body_remark bodyA) request now);
          (resB, sB) =
            (case loadedB of
               Inl res \<Rightarrow> (res, sA)
             | Inr (i, action, request) \<Rightarrow>
                 processWithdrawal_transaction sA i action (body_remark bodyB) request now)
      in (resA, resB, sB))"

section \<open>Reference definitions and example data\<close>

text \<open>The priority of the specification, in its words: the first positive rate of the
  list wins, otherwise the default.\<close>

fun firstPositive :: "rat option list \<Rightarrow> rat \<Rightarrow> rat" where
  "firstPositive [] d = d"
| "firstPositive (None # rs) d = firstPositive rs d"
| "firstPositive (Some r # rs) d = (if r > 0 then r else firstPositive rs d)"

text \<open>The override rates of the product's classification levels, the most specific
  first: sub-sub-category, sub-category, category. A level the product does not name, or
  whose document is missing, carries no rate.\<close>

definition classificationRates :: "db \<Rightarrow> orderItem \<Rightarrow> rat option list" where
  "classificationRates s item =
     (case products s (item_product item) of
        None \<Rightarrow> []
      | Some product \<Rightarrow>
          [Option.bind (Option.bind (product_subSubCategory product) (categories s))
             category_commissionRate,
           Option.bind (Option.bind (product_subcategory product) (subCategories s))
             subCategory_commissionRate,
           Option.bind (Option.bind (product_category product) (categories s))
             category_commissionRate])"

definition resolveSellerRate_spec :: "db \<Rightarrow> seller \<Rightarrow> orderItem \<Rightarrow> rat" where
  "resolveSellerRate_spec s sl item =
     firstPositive (classificationRates s item @ [seller_commission sl]) 10"

text \<open>The example of the specification: sub-sub-category 8\%, sub-category 12\%, seller
  override 15\% (in both seller fields), one delivered order with one item of 100.\<close>

definition item_priority :: orderItem where
  "item_priority =
     \<lparr>item_id = 7, item_order = 1, item_seller = 1, item_product = 5, item_total = 100\<rparr>"

definition seller_priority :: seller where
  "seller_priority =
     \<lparr>seller_commission = Some 15, seller_commissionRate = Some 15, seller_balance = 0\<rparr>"

definition db_priority :: db where
  "db_priority =
     \<lparr>sellers = [1 \<mapsto> seller_priority],
      deliveries = Map.empty,
      categories = [10 \<mapsto> \<lparr>category_name = ''leaf'', category_commissionRate = Some 8\<rparr>],
      subCategories =
        [20 \<mapsto> \<lparr>subCategory_name = ''sub'', subCategory_commissionRate = Some 12\<rparr>],
      products = [5 \<mapsto> \<lparr>productName = ''p'', product_subSubCategory = Some 10,
                         product_subcategory = Some 20, product_category = None\<rparr>],
      orderItems = [7 \<mapsto> item_priority],
      orders = [1 \<mapsto> \<lparr>orderNumber = ''ORD-1'', order_status = ''Delivered'',
                       order_items = [7], order_deliveryBoy = None, order_subtotal = 100,
                       order_deliveryDistanceKm = None\<rparr>],
      settings = None, commissions = [], walletTransactions = [],
      withdrawRequests = Map.empty\<rparr>"

text \<open>\<open>k\<close> is the integer nearest to \<open>y\<close>, a tie going up.\<close>

definition isNearestInteger :: "rat \<Rightarrow> int \<Rightarrow> bool" where
  "isNearestInteger y k \<longleftrightarrow> of_int k - 1 / 2 \<le> y \<and> y < of_int k + 1 / 2"

text \<open>The delivery pricing mode and the per-km rate of the settings document, if any.\<close>

definition distanceActive :: "db \<Rightarrow> bool" where
  "distanceActive s =
     (case Option.bind (settings s) settings_deliveryConfig of
        None \<Rightarrow> False
      | Some cfg \<Rightarrow> isDistanceBased cfg = Some True)"

definition configuredKmRate :: "db \<Rightarrow> rat option" where
  "configuredKmRate s =
     Option.bind (Option.bind (settings s) settings_deliveryConfig) deliveryBoyKmRate"

text \<open>The distance example of the specification (rate 10 per km, 7.5 km), a percentage
  order whose subtotal is the double written 33.33, and one with a subtotal of 20.5, both
  at the default rate.\<close>

definition order_distance :: order where
  "order_distance =
     \<lparr>orderNumber = ''ORD-1'', order_status = ''Delivered'', order_items = [],
      order_deliveryBoy = Some 2, order_subtotal = 400,
      order_deliveryDistanceKm = Some (15 / 2)\<rparr>"

definition db_distance :: db where
  "db_distance =
     \<lparr>sellers = Map.empty,
      deliveries = [2 \<mapsto> \<lparr>delivery_commissionRate = None, delivery_balance = 0\<rparr>],
      categories = Map.empty, subCategories = Map.empty, products = Map.empty,
      orderItems = Map.empty,
      orders = [1 \<mapsto> order_distance],
      settings = Some \<lparr>settings_deliveryConfig =
                   Some \<lparr>isDistanceBased = Some True, deliveryBoyKmRate = Some 10\<rparr>\<rparr>,
      commissions = [], walletTransactions = [], withdrawRequests = Map.empty\<rparr>"

definition order_percentage :: order where
  "order_percentage =
     \<lparr>orderNumber = ''ORD-1'', order_status = ''Delivered'', order_items = [],
      order_deliveryBoy = Some 2, order_subtotal = fl (3333 / 100),
      order_deliveryDistanceKm = None\<rparr>"

definition db_percentage :: db where
  "db_percentage = db_distance\<lparr>orders := [1 \<mapsto> order_percentage], settings := None\<rparr>"

definition order_tie :: order where
  "order_tie = order_percentage\<lparr>order_subtotal := 41 / 2\<rparr>"

definition db_tie :: db where
  "db_tie = db_distance\<lparr>orders := [1 \<mapsto> order_tie], settings := None\<rparr>"

text \<open>A pending withdrawal request of 500 by seller 1, whose balance is 200.\<close>

definition request_500 :: withdrawRequest where
  "request_500 =
     \<lparr>w_userId = 1, w_userType = SELLER, w_amount = 500, w_status = ''Pending'',
      w_remarks = None, w_processedAt = None\<rparr>"

definition db_withdrawal :: db where
  "db_withdrawal =
     \<lparr>sellers = [1 \<mapsto> \<lparr>seller_commission = None, seller_commissionRate = None,
                         seller_balance = 200\<rparr>],
      deliveries = Map.empty, categories = Map.empty, subCategories = Map.empty,
      products = Map.empty, orderItems = Map.empty, orders = Map.empty, settings = None,
      commissions = [], walletTransactions = [],
      withdrawRequests = [4 \<mapsto> request_500]\<rparr>"

definition body_reject :: withdrawalBody where
  "body_reject =
     \<lparr>body_action = Some ''Reject'', body_remark = Some ''wrong account'',
      body_requestId = Some 4, body_id = None\<rparr>"

definition body_approve :: withdrawalBody where
  "body_approve =
     \<lparr>body_action = Some ''Approve'', body_remark = None,
      body_requestId = Some 4, body_id = None\<rparr>"

text \<open>A delivered order with one item of 100 of seller 1 and delivery partner 2, both
  with a balance of 0 and the default rates, then distributed, then reversed.\<close>

definition item_reversal :: orderItem where
  "item_reversal =
     \<lparr>item_id = 7, item_order = 1, item_seller = 1, item_product = 5, item_total = 100\<rparr>"

definition order_reversal :: order where
  "order_reversal =
     \<lparr>orderNumber = ''ORD-1'', order_status = ''Delivered'', order_items = [7],
      order_deliveryBoy = Some 2, order_subtotal = 100, order_deliveryDistanceKm = None\<rparr>"

definition db_reversal :: db where
  "db_reversal =
     \<lparr>sellers = [1 \<mapsto> \<lparr>seller_commission = None, seller_commissionRate = None,
                         seller_balance = 0\<rparr>],
      deliveries = [2 \<mapsto> \<lparr>delivery_commissionRate = None, delivery_balance = 0\<rparr>],
      categories = Map.empty, subCategories = Map.empty, products = Map.empty,
      orderItems = [7 \<mapsto> item_reversal],
      orders = [1 \<mapsto> order_reversal],
      settings = None, commissions = [], walletTransactions = [],
      withdrawRequests = Map.empty\<rparr>"

definition db_distributed :: db where
  "db_distributed = snd (distributeCommissions db_reversal 1 0)"

definition db_reversed :: db where
  "db_reversed = snd (reverseCommissions db_distributed 1)"

text \<open>The items of the order that are found and belong to the seller, in the order of
  the list, and the exact sum of their totals.\<close>

definition sellerItems :: "db \<Rightarrow> objectId list \<Rightarrow> objectId \<Rightarrow> orderItem list" where
  "sellerItems s itemIds sellerId =
     filter (\<lambda>it. item_seller it = sellerId) (List.map_filter (orderItems s) itemIds)"

definition sellerItemTotal :: "db \<Rightarrow> objectId list \<Rightarrow> objectId \<Rightarrow> rat" where
  "sellerItemTotal s itemIds sellerId = sum_list (map item_total (sellerItems s itemIds sellerId))"

text \<open>The sum as the code accumulates it in doubles: the first value enters as it is,
  every further value is added with \<open>fadd\<close>, left to right. Without a value there is no
  sum.\<close>

fun runningSum :: "rat option \<Rightarrow> rat list \<Rightarrow> rat option" where
  "runningSum acc [] = acc"
| "runningSum None (x # xs) = runningSum (Some x) xs"
| "runningSum (Some a) (x # xs) = runningSum (Some (fadd a x)) xs"

text \<open>The commission of one item at a rate, line 98.\<close>

definition itemCommission :: "rat \<Rightarrow> rat \<Rightarrow> rat" where
  "itemCommission rate itemTotal = fdiv (fmul itemTotal rate) 100"

text \<open>The ledger rows \<^verbatim>\<open>distributeCommissions\<close> asks the wallet to write: the seller's
  net proceeds and the delivery partner's commission.\<close>

definition sellerCreditRow ::
  "objectId \<Rightarrow> string \<Rightarrow> nat \<times> objectId \<times> sellerCommission \<Rightarrow> walletTransaction" where
  "sellerCreditRow orderId ordNumber =
     (\<lambda>(commissionId, sellerId, sc).
        ledgerRow sellerId (Some SELLER) (fsub (sc_orderAmount sc) (sc_amount sc)) ''Credit''
          (SaleProceeds ordNumber (sc_amount sc)) (Some orderId) (Some commissionId))"

definition deliveryCreditRow ::
  "objectId \<Rightarrow> string \<Rightarrow> nat \<Rightarrow> deliveryBoyCommission \<Rightarrow> walletTransaction" where
  "deliveryCreditRow orderId ordNumber commissionId dc =
     ledgerRow (dc_deliveryBoyId dc) (Some DELIVERY_BOY) (dc_amount dc) ''Credit''
       (CommissionForOrder ordNumber) (Some orderId) (Some commissionId)"

text \<open>A delivered order without items and without a delivery partner, and an order that
  is not delivered yet.\<close>

definition db_empty_order :: db where
  "db_empty_order =
     \<lparr>sellers = Map.empty, deliveries = Map.empty, categories = Map.empty,
      subCategories = Map.empty, products = Map.empty, orderItems = Map.empty,
      orders = [1 \<mapsto> \<lparr>orderNumber = ''ORD-1'', order_status = ''Delivered'',
                       order_items = [], order_deliveryBoy = None, order_subtotal = 0,
                       order_deliveryDistanceKm = None\<rparr>],
      settings = None, commissions = [], walletTransactions = [],
      withdrawRequests = Map.empty\<rparr>"

definition order_undelivered :: order where
  "order_undelivered =
     \<lparr>orderNumber = ''ORD-1'', order_status = ''Shipped'', order_items = [7],
      order_deliveryBoy = Some 2, order_subtotal = 100, order_deliveryDistanceKm = None\<rparr>"

definition db_undelivered :: db where
  "db_undelivered = db_reversal\<lparr>orders := [1 \<mapsto> order_undelivered]\<rparr>"

definition data_reversal :: orderCommissions where
  "data_reversal =
     \<lparr>oc_seller = [(1, \<lparr>sc_amount = 10, sc_rate = 10, sc_orderAmount = 100\<rparr>)],
      oc_deliveryBoy =
        Some \<lparr>dc_deliveryBoyId = 2, dc_amount = 5, dc_rate = 5, dc_orderAmount = 100\<rparr>\<rparr>"

text \<open>A delivered order with one item of seller 1 whose total is the double written
  1.14, without a delivery partner.\<close>

definition item_drift :: orderItem where
  "item_drift = item_reversal\<lparr>item_total := fl (57 / 50)\<rparr>"

definition db_drift :: db where
  "db_drift =
     db_reversal
       \<lparr>orderItems := [7 \<mapsto> item_drift],
        orders := [1 \<mapsto> order_reversal\<lparr>order_deliveryBoy := None, order_subtotal := fl (57 / 50)\<rparr>]\<rparr>"

text \<open>Two items of seller 1, whose totals are the doubles written 0.7 and 0.1, at the
  default rate.\<close>

definition item_a :: orderItem where
  "item_a = item_reversal\<lparr>item_total := fl (7 / 10)\<rparr>"

definition item_b :: orderItem where
  "item_b = item_reversal\<lparr>item_id := 8, item_total := fl (1 / 10)\<rparr>"

definition db_two_items :: db where
  "db_two_items = db_reversal\<lparr>orderItems := [7 \<mapsto> item_a, 8 \<mapsto> item_b]\<rparr>"

text \<open>The items on which the two paths can agree: the seller exists, no classification
  level of the product carries a positive rate, and the seller's two rate fields hold the
  same value, unset or positive.\<close>

definition pathsAgreeOn :: "db \<Rightarrow> orderItem \<Rightarrow> bool" where
  "pathsAgreeOn s item =
     (case sellers s (item_seller item) of
        None \<Rightarrow> False
      | Some sl \<Rightarrow>
          firstPositive (classificationRates s item) 0 = 0
          \<and> seller_commission sl = seller_commissionRate sl
          \<and> (case seller_commissionRate sl of None \<Rightarrow> True | Some r \<Rightarrow> r > 0))"

text \<open>What each path records: per seller the accumulated order amount, commission and
  net amount (the eager path accumulates the net, the batched path subtracts at line
  227), per Commission document the seller, the rate and the amount.\<close>

definition earningsView :: "objectId \<times> sellerEarnings \<Rightarrow> objectId \<times> rat \<times> rat \<times> rat" where
  "earningsView =
     (\<lambda>(sellerId, e). (sellerId, se_totalAmount e, se_commissionAmount e, se_netEarning e))"

definition commissionView :: "objectId \<times> sellerCommission \<Rightarrow> objectId \<times> rat \<times> rat \<times> rat" where
  "commissionView =
     (\<lambda>(sellerId, sc).
        (sellerId, sc_orderAmount sc, sc_amount sc, fsub (sc_orderAmount sc) (sc_amount sc)))"

definition commissionRateView :: "commission \<Rightarrow> objectId option \<times> rat \<times> rat" where
  "commissionRateView c = (c_seller c, c_commissionRate c, c_commissionAmount c)"

definition db_category :: db where
  "db_category =
     db_priority
       \<lparr>sellers := [1 \<mapsto> \<lparr>seller_commission = None, seller_commissionRate = None,
                             seller_balance = 0\<rparr>],
        categories := [10 \<mapsto> \<lparr>category_name = ''grocery'', category_commissionRate = Some 20\<rparr>],
        products := [5 \<mapsto> \<lparr>productName = ''p'', product_subSubCategory = None,
                             product_subcategory = None, product_category = Some 10\<rparr>]\<rparr>"

text \<open>The same seller and item without any product document.\<close>

definition db_agree :: db where
  "db_agree = db_priority\<lparr>products := Map.empty\<rparr>"

section \<open>Double-precision arithmetic: properties\<close>

text \<open>Rounding moves a value by at most half a unit in the last place, which is at most
  the fraction \<open>2 ^ -53\<close> of the value.\<close>

lemma pow2_pos: "pow2 e > 0"
  by (simp add: pow2_def)

lemma roundHalfEven_error: "\<bar>of_int (roundHalfEven q) - q\<bar> \<le> 1 / 2"
proof -
  have "of_int \<lfloor>q\<rfloor> \<le> q" "q < of_int \<lfloor>q\<rfloor> + 1"
    by linarith+
  then show ?thesis
    by (auto simp add: roundHalfEven_def Let_def)
qed

lemma fl_error: "\<bar>fl x - x\<bar> \<le> halfUlp x"
proof (cases "x = 0")
  case True
  then show ?thesis by (simp add: fl_def halfUlp_def)
next
  case False
  define u where "u = pow2 (floorLog2 \<bar>x\<bar> - 52)"
  have u: "u > 0" by (simp add: u_def pow2_pos)
  have "fl x - x = (of_int (roundHalfEven (x / u)) - x / u) * u"
    using False u by (simp add: fl_def u_def Let_def field_simps)
  then have "\<bar>fl x - x\<bar> = \<bar>of_int (roundHalfEven (x / u)) - x / u\<bar> * u"
    using u by (simp add: abs_mult)
  also have "\<dots> \<le> 1 / 2 * u"
    using roundHalfEven_error [of "x / u"] u by (intro mult_right_mono) simp_all
  finally show ?thesis
    using False by (simp add: halfUlp_def u_def)
qed

lemma floorLog2_le:
  assumes "x > 0"
  shows "pow2 (floorLog2 x) \<le> x"
proof (cases "x \<ge> 1")
  case True
  then have n: "\<lfloor>x\<rfloor> > 0" by linarith
  then have b: "bitlen \<lfloor>x\<rfloor> - 1 \<ge> 0"
    using bitlen_eq_zero_iff [of "\<lfloor>x\<rfloor>"] bitlen_nonneg [of "\<lfloor>x\<rfloor>"] by linarith
  have "(2::int) ^ nat (bitlen \<lfloor>x\<rfloor> - 1) \<le> \<lfloor>x\<rfloor>"
    using bitlen_bounds [OF n] by simp
  then have "(of_int ((2::int) ^ nat (bitlen \<lfloor>x\<rfloor> - 1)) :: rat) \<le> of_int \<lfloor>x\<rfloor>"
    by (simp only: of_int_le_iff)
  then have "(2::rat) ^ nat (bitlen \<lfloor>x\<rfloor> - 1) \<le> of_int \<lfloor>x\<rfloor>"
    by simp
  also have "\<dots> \<le> x"
    by (rule of_int_floor_le)
  finally have "(2::rat) ^ nat (bitlen \<lfloor>x\<rfloor> - 1) \<le> x" .
  then show ?thesis
    using True b by (simp add: floorLog2_def pow2_def)
next
  case False
  define n where "n = \<lceil>1 / x\<rceil> - 1"
  define k where "k = bitlen n"
  from False assms have "1 / x > 1" by (simp add: field_simps)
  then have n: "n > 0" unfolding n_def by linarith
  then have k: "k > 0"
    using bitlen_eq_zero_iff [of n] bitlen_nonneg [of n] unfolding k_def by linarith
  have "n < 2 ^ nat k"
    using bitlen_bounds [OF n] by (simp add: k_def)
  then have "\<lceil>1 / x\<rceil> \<le> 2 ^ nat k"
    by (simp add: n_def)
  then have "1 / x \<le> of_int (2 ^ nat k)"
    by (simp only: ceiling_le_iff)
  then have "1 / x \<le> 2 ^ nat k"
    by simp
  then have "1 / 2 ^ nat k \<le> x"
    using assms by (simp add: field_simps)
  then show ?thesis
    using False k by (simp add: floorLog2_def pow2_def n_def [symmetric] k_def [symmetric])
qed

lemma pow2_diff: "pow2 (e - 52) = pow2 e / 2 ^ 52"
proof -
  have "pow2 e = 2 powi e" for e
    by (simp add: pow2_def power_int_def power_divide)
  then show ?thesis
    by (simp add: power_int_diff)
qed

lemma halfUlp_relative: "halfUlp x \<le> \<bar>x\<bar> / 2 ^ 53"
proof (cases "x = 0")
  case True
  then show ?thesis by (simp add: halfUlp_def)
next
  case False
  then have "pow2 (floorLog2 \<bar>x\<bar>) \<le> \<bar>x\<bar>"
    by (intro floorLog2_le) simp
  then show ?thesis
    using False by (simp add: halfUlp_def pow2_diff field_simps)
qed

lemma fl_relative_error: "\<bar>fl x - x\<bar> \<le> \<bar>x\<bar> / 2 ^ 53"
  using fl_error [of x] halfUlp_relative [of x] by linarith

lemma net_plus_commission_error:
  "\<bar>(fsub a b + b) - a\<bar> \<le> \<bar>a - b\<bar> / 2 ^ 53"
  using fl_relative_error [of "a - b"] by (simp add: fsub_def algebra_simps)

section \<open>The arithmetic at the example values\<close>

text \<open>The operations the examples go through, each evaluated from the definition of
  \<open>fl\<close>. The fractions are the doubles themselves: 1026820715040473 / 9007199254740992 is
  0.11399999999999999, 288793326105133 / 281474976710656 is 1.0259999999999998.\<close>

lemma double_evals:
  "fmul 100 15 = 1500"
  "fdiv 1500 100 = 15"
  "fsub 100 15 = 85"
  "fadd 0 100 = 100"
  "fadd 0 15 = 15"
  "fadd 0 85 = 85"
  "fmul 100 10 = 1000"
  "fdiv 1000 100 = 10"
  "fsub 100 10 = 90"
  "fmul 100 8 = 800"
  "fdiv 800 100 = 8"
  "fsub 100 8 = 92"
  "fadd 0 8 = 8"
  "fadd 0 92 = 92"
  "fmul 100 20 = 2000"
  "fdiv 2000 100 = 20"
  "fsub 100 20 = 80"
  "fadd 0 20 = 20"
  "fadd 0 80 = 80"
  "fmul 100 5 = 500"
  "fdiv 500 100 = 5"
  "fmul 5 100 = 500"
  "Math_round 500 = 500"
  "fmul (15 / 2) 10 = 75"
  "fmul 75 100 = 7500"
  "Math_round 7500 = 7500"
  "fdiv 7500 100 = 75"
  "fl (3333 / 100) = 2345390243441541 / 70368744177664"
  "fmul (2345390243441541 / 70368744177664) 5 = 1465868902150963 / 8796093022208"
  "fdiv (1465868902150963 / 8796093022208) 100 = 7505248779012931 / 4503599627370496"
  "fmul (7505248779012931 / 4503599627370496) 100 = 1465868902150963 / 8796093022208"
  "Math_round (1465868902150963 / 8796093022208) = 167"
  "fdiv 167 100 = 940126422213591 / 562949953421312"
  "fl (167 / 100) = 940126422213591 / 562949953421312"
  "fmul (41 / 2) 5 = 205 / 2"
  "fdiv (205 / 2) 100 = 2308094809027379 / 2251799813685248"
  "fmul (2308094809027379 / 2251799813685248) 100 = 7212796278210559 / 70368744177664"
  "Math_round (7212796278210559 / 70368744177664) = 102"
  "fdiv 102 100 = 2296835809958953 / 2251799813685248"
  "fl (51 / 50) = 2296835809958953 / 2251799813685248"
  "fl (103 / 100) = 4638707616191611 / 4503599627370496"
  "fl (57 / 50) = 5134103575202365 / 4503599627370496"
  "fmul (5134103575202365 / 4503599627370496) 10 = 1604407367250739 / 140737488355328"
  "fdiv (1604407367250739 / 140737488355328) 100 = 1026820715040473 / 9007199254740992"
  "fsub (5134103575202365 / 4503599627370496) (1026820715040473 / 9007199254740992) = 288793326105133 / 281474976710656"
  "fadd (288793326105133 / 281474976710656) (1026820715040473 / 9007199254740992) = 1283525893800591 / 1125899906842624"
  by code_simp+

text \<open>The totals 0.7 and 0.1 at 10\%.\<close>

lemma double_evals_two_items:
  "fl (7 / 10) = 3152519739159347 / 4503599627370496"
  "fl (1 / 10) = 3602879701896397 / 36028797018963968"
  "fmul (3152519739159347 / 4503599627370496) 10 = 7"
  "fdiv 7 100 = 1261007895663739 / 18014398509481984"
  "fsub (3152519739159347 / 4503599627370496) (1261007895663739 / 18014398509481984) = 709316941310853 / 1125899906842624"
  "fmul (3602879701896397 / 36028797018963968) 10 = 1"
  "fdiv 1 100 = 5764607523034235 / 576460752303423488"
  "fsub (3602879701896397 / 36028797018963968) (5764607523034235 / 576460752303423488) = 6485183463413515 / 72057594037927936"
  "fadd 0 (3152519739159347 / 4503599627370496) = 3152519739159347 / 4503599627370496"
  "fadd (3152519739159347 / 4503599627370496) (3602879701896397 / 36028797018963968) = 7205759403792793 / 9007199254740992"
  "fadd 0 (1261007895663739 / 18014398509481984) = 1261007895663739 / 18014398509481984"
  "fadd (1261007895663739 / 18014398509481984) (5764607523034235 / 576460752303423488) = 5764607523034235 / 72057594037927936"
  "fadd 0 (709316941310853 / 1125899906842624) = 709316941310853 / 1125899906842624"
  "fadd (709316941310853 / 1125899906842624) (6485183463413515 / 72057594037927936) = 6485183463413513 / 9007199254740992"
  "fsub (7205759403792793 / 9007199254740992) (5764607523034235 / 72057594037927936) = 3242591731706757 / 4503599627370496"
  by code_simp+

section \<open>Rate resolution: properties\<close>

lemma firstPositive_Cons:
  "firstPositive (r # rs) d =
     (if firstPositive [r] 0 = 0 then firstPositive rs d else firstPositive [r] 0)"
  by (cases r) auto

lemma levelRate_firstPositive:
  "levelRate cur x tbl f =
     (if firstPositive [Option.bind (Option.bind x tbl) f] 0 = 0 then cur
      else firstPositive [Option.bind (Option.bind x tbl) f] 0)"
  by (auto simp add: levelRate_def overrideRate_def truthy_def split: option.splits)

lemma seller_step:
  "(case c of Some v \<Rightarrow> if v > 0 then v else cur | None \<Rightarrow> cur)
   = (if firstPositive [c] 0 = 0 then cur else firstPositive [c] 0)"
  by (cases c) auto

lemma itemCommissionRate_priority:
  "itemCommissionRate s sl item = resolveSellerRate_spec s sl item"
proof (cases "products s (item_product item)")
  case None
  then show ?thesis
    by (simp add: itemCommissionRate_def resolveSellerRate_spec_def classificationRates_def
        seller_step firstPositive_Cons [of "seller_commission sl" "[]" 10])
next
  case (Some p)
  then show ?thesis
    by (simp add: itemCommissionRate_def resolveSellerRate_spec_def classificationRates_def
        Let_def levelRate_firstPositive seller_step
        firstPositive_Cons [of _ "_ # _"]
        firstPositive_Cons [of "seller_commission sl" "[]" 10])
qed

text \<open>
  Claim C9. A seller or delivery partner whose record cannot be found does not stop the
  computation: \<^verbatim>\<open>getSellerCommissionRate\<close> answers the default 10,
  \<^verbatim>\<open>getDeliveryBoyCommissionRate\<close> answers the default 5, and
  \<^verbatim>\<open>calculateOrderCommissions\<close> fails only when the order itself is missing. On the
  eager path an item whose seller is missing is passed over and the loop goes on.
\<close>

theorem missing_subject_fails_soft:
  "(sellers s sellerId = None \<longrightarrow> getSellerCommissionRate s sellerId = 10)
   \<and> (deliveries s deliveryBoyId = None \<longrightarrow> getDeliveryBoyCommissionRate s deliveryBoyId = 5)
   \<and> (calculateOrderCommissions s orderId = Inl e \<longrightarrow> orders s orderId = None)
   \<and> (sellers s (item_seller item) = None \<longrightarrow>
        createFirstPass (item # rest) m s = createFirstPass rest m s)"
  by (simp add: getSellerCommissionRate_def getDeliveryBoyCommissionRate_def
      calculateOrderCommissions_def split: option.splits)

theorem missing_subject_fails_soft_witness:
  "sellers db_priority 2 = None \<and> getSellerCommissionRate db_priority 2 = 10
   \<and> deliveries db_priority 3 = None \<and> getDeliveryBoyCommissionRate db_priority 3 = 5
   \<and> calculateOrderCommissions db_priority 9 = Inl OrderNotFound \<and> orders db_priority 9 = None
   \<and> sellers db_priority (item_seller (item_priority\<lparr>item_seller := 2\<rparr>)) = None
   \<and> createFirstPass (item_priority\<lparr>item_seller := 2\<rparr> # []) [] db_priority
       = createFirstPass [] [] db_priority"
  using missing_subject_fails_soft
    [of db_priority 2 3 9 OrderNotFound "item_priority\<lparr>item_seller := 2\<rparr>" "[]" "[]"]
  by (simp add: db_priority_def calculateOrderCommissions_def)

text \<open>
  Claim C3, as the code has it. The eager path \<^verbatim>\<open>createCommissions\<close> resolves the rate of
  every item by the stated priority: the first positive rate among sub-sub-category,
  sub-category, category and the seller's own \<^verbatim>\<open>commission\<close>, otherwise 10. With 8\%,
  12\% and 15\% the Commission it writes carries 8\%. The batched resolver
  \<^verbatim>\<open>getSellerCommissionRate\<close> answers the seller's \<^verbatim>\<open>commissionRate\<close> when it is set and 10
  otherwise, whatever the product.
\<close>

theorem eager_rate_follows_priority:
  "itemCommissionRate s sl item = resolveSellerRate_spec s sl item
   \<and> resolveSellerRate_spec db_priority seller_priority item_priority = 8
   \<and> map c_commissionRate (commissions (createCommissions [item_priority] db_priority)) = [8]
   \<and> getSellerCommissionRate s sellerId =
       (case Option.bind (sellers s sellerId) seller_commissionRate of
          Some r \<Rightarrow> r
        | None \<Rightarrow> 10)"
proof -
  have "resolveSellerRate_spec db_priority seller_priority item_priority = 8"
    by (simp add: resolveSellerRate_spec_def classificationRates_def db_priority_def
        item_priority_def seller_priority_def)
  moreover have
    "map c_commissionRate (commissions (createCommissions [item_priority] db_priority)) = [8]"
    by (simp add: createCommissions_def itemCommissionRate_def levelRate_def overrideRate_def
        truthy_def db_priority_def item_priority_def seller_priority_def Let_def)
  moreover have "getSellerCommissionRate s sellerId =
       (case Option.bind (sellers s sellerId) seller_commissionRate of
          Some r \<Rightarrow> r
        | None \<Rightarrow> 10)"
    by (simp add: getSellerCommissionRate_def split: option.splits)
  ultimately show ?thesis
    using itemCommissionRate_priority by simp
qed

text \<open>
  Claim C3 as stated fails on the batched path: for the same order
  \<^verbatim>\<open>distributeCommissions\<close> records the seller's \<^verbatim>\<open>commissionRate\<close> of 15\%, not the 8\%
  of the sub-sub-category.
\<close>

theorem batched_rate_ignores_classification:
  "calculateOrderCommissions db_priority 1 =
     Inr \<lparr>oc_seller = [(1, \<lparr>sc_amount = 15, sc_rate = 15, sc_orderAmount = 100\<rparr>)],
          oc_deliveryBoy = None\<rparr>
   \<and> map c_commissionRate (commissions (snd (distributeCommissions db_priority 1 0))) = [15]
   \<and> resolveSellerRate_spec db_priority seller_priority item_priority = 8"
  by (simp add: distributeCommissions_def distributeBody_def findCommissions_def
      calculateOrderCommissions_def db_priority_def item_priority_def seller_priority_def
      getSellerCommissionRate_def creditDeliveryBoy_def creditWallet_def walletBalance_def
      setBalance_def ledgerRow_def resolveSellerRate_spec_def classificationRates_def
      newSellerCommission_def double_evals)

section \<open>Delivery commission: properties\<close>

lemma floor_rat_numeral:
  "\<lfloor>(numeral a / numeral b :: rat)\<rfloor> = numeral a div numeral b"
  using floor_divide_of_int_eq [of "numeral a" "numeral b", where ?'a = rat] by simp

lemma Math_round_nearest: "isNearestInteger y (Math_round y)"
proof -
  have "of_int \<lfloor>y + 1 / 2\<rfloor> \<le> y + 1 / 2"
    by (rule of_int_floor_le)
  moreover have "y + 1 / 2 < of_int \<lfloor>y + 1 / 2\<rfloor> + 1"
    by linarith
  ultimately show ?thesis
    unfolding isNearestInteger_def Math_round_def by linarith
qed

lemma distance_branch:
  assumes "distanceActive s" "configuredKmRate s = Some kmRate" "kmRate > 0"
    "order_deliveryDistanceKm ord = Some distKm" "distKm > 0"
  shows "distanceBasedRate s ord = Some (kmRate, fmul distKm kmRate)"
  using assms
  by (auto simp add: distanceBasedRate_def distanceActive_def configuredKmRate_def truthy_def
      split: option.splits Option.bind_splits)

lemma percentage_branch:
  assumes "\<not> distanceActive s \<or> configuredKmRate s \<in> {None, Some 0}
     \<or> (case order_deliveryDistanceKm ord of None \<Rightarrow> True | Some d \<Rightarrow> d \<le> 0)"
  shows "distanceBasedRate s ord = None"
  using assms
  by (auto simp add: distanceBasedRate_def distanceActive_def configuredKmRate_def truthy_def
      split: option.splits Option.bind_splits)

lemma eval_distance: "deliveryCommission db_distance order_distance 2 =
   \<lparr>dc_deliveryBoyId = 2, dc_amount = 75, dc_rate = 10, dc_orderAmount = 15 / 2\<rparr>"
  by (simp add: deliveryCommission_def distanceBasedRate_def db_distance_def order_distance_def
      truthy_def roundTo2Decimals_def double_evals)

lemma eval_percentage: "deliveryCommission db_percentage order_percentage 2 =
   \<lparr>dc_deliveryBoyId = 2, dc_amount = fl (167 / 100), dc_rate = 5,
    dc_orderAmount = fl (3333 / 100)\<rparr>"
  by (simp add: deliveryCommission_def distanceBasedRate_def db_percentage_def db_distance_def
      order_percentage_def roundTo2Decimals_def getDeliveryBoyCommissionRate_def double_evals)

lemma eval_tie: "deliveryCommission db_tie order_tie 2 =
   \<lparr>dc_deliveryBoyId = 2, dc_amount = fl (51 / 50), dc_rate = 5, dc_orderAmount = 41 / 2\<rparr>"
  by (simp add: deliveryCommission_def distanceBasedRate_def db_tie_def db_distance_def
      order_tie_def order_percentage_def roundTo2Decimals_def getDeliveryBoyCommissionRate_def
      double_evals)

text \<open>
  Claim C6, as the code has it. For an order with a delivery partner: when distance mode
  is active, the configured per-km rate is positive and the order's distance is positive,
  the commission is the double product distance times rate passed through
  \<^verbatim>\<open>Math.round(x * 100) / 100\<close> and the recorded \<^verbatim>\<open>orderAmount\<close> is the distance; when
  distance mode is not active, or no per-km rate or a rate of zero is configured, or the
  order has no distance or a non-positive one, the commission is the double
  \<^verbatim>\<open>subtotal * rate / 100\<close> passed through the same rounding and the \<^verbatim>\<open>orderAmount\<close> is the
  subtotal. The rounding takes the integer nearest to the double \<^verbatim>\<open>x * 100\<close>, a tie going
  up, and divides it by 100 in doubles.
\<close>

theorem delivery_commission_basis:
  assumes "orders s orderId = Some ord" and "order_deliveryBoy ord = Some deliveryBoyId"
  shows "calculateOrderCommissions s orderId =
           Inr \<lparr>oc_seller = sellerCommissionsLoop s (order_items ord) [],
                oc_deliveryBoy = Some (deliveryCommission s ord deliveryBoyId)\<rparr>
    \<and> (distanceActive s \<and> configuredKmRate s = Some kmRate \<and> kmRate > 0
         \<and> order_deliveryDistanceKm ord = Some distKm \<and> distKm > 0 \<longrightarrow>
        dc_amount (deliveryCommission s ord deliveryBoyId)
          = roundTo2Decimals (fmul distKm kmRate)
        \<and> dc_orderAmount (deliveryCommission s ord deliveryBoyId) = distKm
        \<and> dc_rate (deliveryCommission s ord deliveryBoyId) = kmRate)
    \<and> (\<not> distanceActive s \<or> configuredKmRate s \<in> {None, Some 0}
         \<or> (case order_deliveryDistanceKm ord of None \<Rightarrow> True | Some d \<Rightarrow> d \<le> 0) \<longrightarrow>
        dc_amount (deliveryCommission s ord deliveryBoyId)
          = roundTo2Decimals
              (fdiv (fmul (order_subtotal ord) (getDeliveryBoyCommissionRate s deliveryBoyId))
                 100)
        \<and> dc_orderAmount (deliveryCommission s ord deliveryBoyId) = order_subtotal ord
        \<and> dc_rate (deliveryCommission s ord deliveryBoyId)
            = getDeliveryBoyCommissionRate s deliveryBoyId)
    \<and> roundTo2Decimals x = fdiv (of_int (Math_round (fmul x 100))) 100
    \<and> isNearestInteger (fmul x 100) (Math_round (fmul x 100))"
proof (intro conjI impI)
  show "calculateOrderCommissions s orderId =
           Inr \<lparr>oc_seller = sellerCommissionsLoop s (order_items ord) [],
                oc_deliveryBoy = Some (deliveryCommission s ord deliveryBoyId)\<rparr>"
    using assms by (simp add: calculateOrderCommissions_def)
next
  assume a: "distanceActive s \<and> configuredKmRate s = Some kmRate \<and> kmRate > 0
         \<and> order_deliveryDistanceKm ord = Some distKm \<and> distKm > 0"
  then have d: "distanceBasedRate s ord = Some (kmRate, fmul distKm kmRate)"
    by (simp add: distance_branch)
  show "dc_amount (deliveryCommission s ord deliveryBoyId)
          = roundTo2Decimals (fmul distKm kmRate)"
    by (simp add: deliveryCommission_def d)
  show "dc_orderAmount (deliveryCommission s ord deliveryBoyId) = distKm"
    using a by (simp add: deliveryCommission_def d)
  show "dc_rate (deliveryCommission s ord deliveryBoyId) = kmRate"
    by (simp add: deliveryCommission_def d)
next
  assume "\<not> distanceActive s \<or> configuredKmRate s \<in> {None, Some 0}
         \<or> (case order_deliveryDistanceKm ord of None \<Rightarrow> True | Some d \<Rightarrow> d \<le> 0)"
  then have d: "distanceBasedRate s ord = None"
    by (rule percentage_branch)
  show "dc_amount (deliveryCommission s ord deliveryBoyId)
          = roundTo2Decimals
              (fdiv (fmul (order_subtotal ord) (getDeliveryBoyCommissionRate s deliveryBoyId))
                 100)"
    by (simp add: deliveryCommission_def d Let_def)
  show "dc_orderAmount (deliveryCommission s ord deliveryBoyId) = order_subtotal ord"
    by (simp add: deliveryCommission_def d Let_def)
  show "dc_rate (deliveryCommission s ord deliveryBoyId)
            = getDeliveryBoyCommissionRate s deliveryBoyId"
    by (simp add: deliveryCommission_def d Let_def)
next
  show "roundTo2Decimals x = fdiv (of_int (Math_round (fmul x 100))) 100"
    by (simp add: roundTo2Decimals_def)
  show "isNearestInteger (fmul x 100) (Math_round (fmul x 100))"
    by (rule Math_round_nearest)
qed

theorem delivery_commission_basis_witness:
  "orders db_distance 1 = Some order_distance \<and> order_deliveryBoy order_distance = Some 2
   \<and> distanceActive db_distance \<and> configuredKmRate db_distance = Some 10
   \<and> order_deliveryDistanceKm order_distance = Some (15 / 2)
   \<and> roundTo2Decimals (fmul (15 / 2) 10) = 75
   \<and> dc_amount (deliveryCommission db_distance order_distance 2) = 75
   \<and> dc_orderAmount (deliveryCommission db_distance order_distance 2) = 15 / 2
   \<and> orders db_percentage 1 = Some order_percentage
   \<and> \<not> distanceActive db_percentage
   \<and> dc_amount (deliveryCommission db_percentage order_percentage 2) = fl (167 / 100)
   \<and> dc_orderAmount (deliveryCommission db_percentage order_percentage 2) = fl (3333 / 100)
   \<and> orders db_tie 1 = Some order_tie
   \<and> \<not> distanceActive db_tie
   \<and> order_subtotal order_tie * 5 / 100 = 41 / 40
   \<and> dc_amount (deliveryCommission db_tie order_tie 2) = fl (51 / 50)
   \<and> fl (51 / 50) \<noteq> fl (103 / 100)"
  using delivery_commission_basis [of db_distance 1 order_distance 2 10 "15 / 2" 0]
    delivery_commission_basis [of db_percentage 1 order_percentage 2 0 0 0]
    delivery_commission_basis [of db_tie 1 order_tie 2 0 0 0]
  by (simp add: eval_distance eval_percentage eval_tie)
     (simp add: db_distance_def db_percentage_def db_tie_def order_distance_def
      order_percentage_def order_tie_def distanceActive_def configuredKmRate_def
      getDeliveryBoyCommissionRate_def roundTo2Decimals_def double_evals)

text \<open>
  Claim C6 as stated fails on the percentage branch, which is rounded too: for the
  subtotal 33.33 at 5\% the commission is the double written 1.67, while subtotal times
  rate over 100 is 1.6664999999999999 in doubles and 1.6665 exactly.
\<close>

theorem percentage_commission_is_rounded:
  "dc_amount (deliveryCommission db_percentage order_percentage 2) = fl (167 / 100)
   \<and> fdiv (fmul (order_subtotal order_percentage)
              (getDeliveryBoyCommissionRate db_percentage 2)) 100
       = 7505248779012931 / 4503599627370496
   \<and> dc_amount (deliveryCommission db_percentage order_percentage 2)
       \<noteq> fdiv (fmul (order_subtotal order_percentage)
                (getDeliveryBoyCommissionRate db_percentage 2)) 100
   \<and> dc_amount (deliveryCommission db_percentage order_percentage 2)
       \<noteq> order_subtotal order_percentage * getDeliveryBoyCommissionRate db_percentage 2 / 100"
  by (simp add: eval_percentage)
     (simp add: db_percentage_def db_distance_def order_percentage_def
      getDeliveryBoyCommissionRate_def double_evals)

section \<open>Withdrawals: properties\<close>

lemmas wallet_defs = creditWallet_def debitWallet_def walletBalance_def setBalance_def ledgerRow_def

text \<open>
  Claim C8. Rejecting a pending request whose requester has a wallet answers success,
  raises that balance by exactly the requested amount, appends exactly one Credit row of
  that amount, leaves every other balance alone and stores the request as Rejected with
  the remark and the time of processing. When the credit fails nothing is changed.
\<close>

theorem reject_refunds_request_amount:
  assumes "idToProcess body = Some requestId"
    and "body_action body = Some ''Reject''"
    and "withdrawRequests s requestId = Some request"
    and "w_status request = ''Pending''"
  shows "case walletBalance s (w_userId request) (Some (w_userType request)) of
           Some b \<Rightarrow>
             fst (processWithdrawal s body now) =
               \<lparr>res_status = 200, res_success = True,
                res_message = ''Withdrawal Rejected successfully''\<rparr>
             \<and> walletBalance (snd (processWithdrawal s body now)) (w_userId request)
                 (Some (w_userType request)) = Some (b + w_amount request)
             \<and> walletTransactions (snd (processWithdrawal s body now)) =
                 walletTransactions s @
                   [ledgerRow (w_userId request) (Some (w_userType request)) (w_amount request)
                      ''Credit'' (WithdrawalRejected requestId) None None]
             \<and> withdrawRequests (snd (processWithdrawal s body now)) =
                 (withdrawRequests s)(requestId \<mapsto>
                    request\<lparr>w_status := ''Rejected'', w_remarks := body_remark body,
                            w_processedAt := Some now\<rparr>)
             \<and> (\<forall>u t. (u, t) \<noteq> (w_userId request, Some (w_userType request)) \<longrightarrow>
                   walletBalance (snd (processWithdrawal s body now)) u t = walletBalance s u t)
         | None \<Rightarrow>
             \<not> res_success (fst (processWithdrawal s body now))
             \<and> snd (processWithdrawal s body now) = s"
proof (cases "walletBalance s (w_userId request) (Some (w_userType request))")
  case None
  then show ?thesis
    using assms
    by (simp add: processWithdrawal_def processWithdrawal_load_def
        processWithdrawal_transaction_def creditWallet_def)
next
  case (Some b)
  then show ?thesis
    using assms
    by (cases "w_userType request")
       (auto simp add: processWithdrawal_def processWithdrawal_load_def
        processWithdrawal_transaction_def saveRequest_def wallet_defs
        split: option.splits userType.splits)
qed

theorem reject_refunds_request_amount_witness:
  "idToProcess body_reject = Some 4 \<and> body_action body_reject = Some ''Reject''
   \<and> withdrawRequests db_withdrawal 4 = Some request_500 \<and> w_status request_500 = ''Pending''
   \<and> w_amount request_500 = 500
   \<and> walletBalance db_withdrawal 1 (Some SELLER) = Some 200
   \<and> walletBalance (snd (processWithdrawal db_withdrawal body_reject 0)) 1 (Some SELLER)
       = Some 700
   \<and> walletTransactions (snd (processWithdrawal db_withdrawal body_reject 0))
       = [ledgerRow 1 (Some SELLER) 500 ''Credit'' (WithdrawalRejected 4) None None]"
  using reject_refunds_request_amount [of body_reject 4 db_withdrawal request_500 0]
  by (simp add: idToProcess_def body_reject_def db_withdrawal_def request_500_def
      walletBalance_def)

text \<open>
  Claim C10, as the code has it. For a pending request, a non-empty action other than
  \<^verbatim>\<open>Approve\<close> and \<^verbatim>\<open>Reject\<close> answers success and leaves the whole database as it was.
\<close>

theorem unknown_action_is_silent_noop:
  assumes "idToProcess body = Some requestId"
    and "withdrawRequests s requestId = Some request"
    and "w_status request = ''Pending''"
    and "body_action body = Some action"
    and "action \<noteq> []" and "action \<noteq> ''Approve''" and "action \<noteq> ''Reject''"
  shows "processWithdrawal s body now =
           (\<lparr>res_status = 200, res_success = True,
             res_message = ''Withdrawal '' @ action @ ''ed successfully''\<rparr>, s)"
  using assms
  by (simp add: processWithdrawal_def processWithdrawal_load_def
      processWithdrawal_transaction_def saveRequest_def)

theorem unknown_action_is_silent_noop_witness:
  "idToProcess (body_reject\<lparr>body_action := Some ''Complete''\<rparr>) = Some 4
   \<and> withdrawRequests db_withdrawal 4 = Some request_500 \<and> w_status request_500 = ''Pending''
   \<and> processWithdrawal db_withdrawal (body_reject\<lparr>body_action := Some ''Complete''\<rparr>) 0 =
       (\<lparr>res_status = 200, res_success = True,
         res_message = ''Withdrawal Completeed successfully''\<rparr>, db_withdrawal)"
  using unknown_action_is_silent_noop
    [of "body_reject\<lparr>body_action := Some ''Complete''\<rparr>" 4 db_withdrawal request_500
        "''Complete''" 0]
  by (simp add: idToProcess_def body_reject_def db_withdrawal_def request_500_def)

text \<open>
  Claim C10 as stated fails for the empty action, which the guard on the request body
  refuses with status 400.
\<close>

theorem empty_action_is_rejected:
  "processWithdrawal db_withdrawal (body_reject\<lparr>body_action := Some []\<rparr>) 0 =
     (\<lparr>res_status = 400, res_success = False,
       res_message = ''Request ID and Action are required''\<rparr>, db_withdrawal)"
  by (simp add: processWithdrawal_def processWithdrawal_load_def idToProcess_def
      body_reject_def)

text \<open>One call after the other: a request that is no longer pending is refused and
  nothing changes.\<close>

lemma processed_request_is_refused:
  assumes "idToProcess body = Some requestId"
    and "withdrawRequests s requestId = Some request"
    and "w_status request \<noteq> ''Pending''"
    and "body_action body = Some action" and "action \<noteq> []"
  shows "processWithdrawal s body now =
           (\<lparr>res_status = 400, res_success = False,
             res_message = ''Request is already processed''\<rparr>, s)"
  using assms by (simp add: processWithdrawal_def processWithdrawal_load_def)

text \<open>
  Claim C7. The status is checked once, on the document loaded before the transaction
  is opened. Two calls that both load the pending request before either commits both
  succeed: two rejections refund the 500 twice (balance 200 to 1200, two ledger rows),
  two approvals both answer success.
\<close>

theorem racing_rejects_both_succeed:
  "walletBalance db_withdrawal 1 (Some SELLER) = Some 200
   \<and> res_success (fst (processWithdrawal_race db_withdrawal body_reject body_reject 0))
   \<and> res_success (fst (snd (processWithdrawal_race db_withdrawal body_reject body_reject 0)))
   \<and> walletBalance (snd (snd (processWithdrawal_race db_withdrawal body_reject body_reject 0)))
        1 (Some SELLER) = Some 1200
   \<and> length (walletTransactions
        (snd (snd (processWithdrawal_race db_withdrawal body_reject body_reject 0)))) = 2
   \<and> res_success (fst (processWithdrawal_race db_withdrawal body_approve body_approve 0))
   \<and> res_success (fst (snd (processWithdrawal_race db_withdrawal body_approve body_approve 0)))"
  by (simp add: processWithdrawal_race_def processWithdrawal_load_def
      processWithdrawal_transaction_def saveRequest_def wallet_defs idToProcess_def
      body_reject_def body_approve_def db_withdrawal_def request_500_def)

section \<open>Reversal: properties\<close>

text \<open>
  Claim C2. Distribution credits the seller the net proceeds (90 of 100) and the
  delivery partner the commission (5); reversal cancels both Commission documents and
  debits each subject its \<^verbatim>\<open>commissionAmount\<close>: the delivery partner is back at 0, the
  seller is left with 80 instead of 0.
\<close>

theorem reversal_leaves_seller_credit:
  "walletBalance db_reversal 1 (Some SELLER) = Some 0
   \<and> walletBalance db_reversal 2 (Some DELIVERY_BOY) = Some 0
   \<and> fst (distributeCommissions db_reversal 1 0) = Inr (commissions db_distributed)
   \<and> walletBalance db_distributed 1 (Some SELLER) = Some 90
   \<and> walletBalance db_distributed 2 (Some DELIVERY_BOY) = Some 5
   \<and> fst (reverseCommissions db_distributed 1) = Inr CommissionsReversed
   \<and> map c_status (commissions db_reversed) = [''Cancelled'', ''Cancelled'']
   \<and> walletBalance db_reversed 1 (Some SELLER) = Some 80
   \<and> walletBalance db_reversed 2 (Some DELIVERY_BOY) = Some 0"
  by (simp add: db_reversed_def db_distributed_def distributeCommissions_def distributeBody_def
      findCommissions_def calculateOrderCommissions_def deliveryCommission_def
      distanceBasedRate_def getSellerCommissionRate_def getDeliveryBoyCommissionRate_def
      creditDeliveryBoy_def wallet_defs
      reverseCommissions_def findCommissionsIndexed_def newSellerCommission_def
      newDeliveryBoyCommission_def db_reversal_def item_reversal_def order_reversal_def
      roundTo2Decimals_def double_evals)

section \<open>Distribution: properties\<close>

subsection \<open>The ledger operations\<close>

lemma setBalance_fields [simp]:
  "commissions (setBalance u t b s) = commissions s"
  "walletTransactions (setBalance u t b s) = walletTransactions s"
  "orders (setBalance u t b s) = orders s"
  "orderItems (setBalance u t b s) = orderItems s"
  "settings (setBalance u t b s) = settings s"
  by (simp_all add: setBalance_def split: option.splits userType.splits)

lemma walletBalance_setBalance:
  "walletBalance s u t = Some b0 \<Longrightarrow>
   walletBalance (setBalance u t b s) u' t' =
     (if u' = u \<and> t' = t then Some b else walletBalance s u' t')"
  by (auto simp add: walletBalance_def setBalance_def split: option.splits userType.splits)

lemma walletBalance_other_fields [simp]:
  "walletBalance (s\<lparr>walletTransactions := w\<rparr>) u t = walletBalance s u t"
  "walletBalance (s\<lparr>commissions := c\<rparr>) u t = walletBalance s u t"
  by (simp_all add: walletBalance_def split: option.splits userType.splits)

lemma creditWallet_Inr:
  assumes "creditWallet u t a d ro rc s = Inr s'"
  shows "commissions s' = commissions s"
    and "orders s' = orders s"
    and "walletTransactions s' = walletTransactions s @ [ledgerRow u t a ''Credit'' d ro rc]"
    and "walletBalance s u t \<noteq> None"
    and "walletBalance s' u' t' =
           (if u' = u \<and> t' = t then map_option (\<lambda>b. b + a) (walletBalance s u t)
            else walletBalance s u' t')"
  using assms
  by (auto simp add: creditWallet_def walletBalance_setBalance split: option.splits)

lemma creditSellers_Inr:
  "creditSellers orderId ordNumber now xs s = Inr s' \<Longrightarrow>
   commissions s' = commissions s @ map (\<lambda>(sid, sc). newSellerCommission orderId now sid sc) xs
   \<and> walletTransactions s' = walletTransactions s @
        map (sellerCreditRow orderId ordNumber) (enumerate (length (commissions s)) xs)
   \<and> orders s' = orders s"
proof (induction xs arbitrary: s)
  case Nil
  then show ?case by simp
next
  case (Cons x xs)
  obtain sid sc where x: "x = (sid, sc)" by (cases x)
  let ?s1 = "s\<lparr>commissions := commissions s @ [newSellerCommission orderId now sid sc]\<rparr>"
  from Cons.prems x obtain s2 where
    credit: "creditWallet sid (Some SELLER) (fsub (sc_orderAmount sc) (sc_amount sc))
               (SaleProceeds ordNumber (sc_amount sc)) (Some orderId)
               (Some (length (commissions s))) ?s1 = Inr s2"
    and rest: "creditSellers orderId ordNumber now xs s2 = Inr s'"
    by (auto simp add: Let_def split: sum.splits)
  note c = creditWallet_Inr(1-3) [OF credit]
  from Cons.IH [OF rest] c show ?case
    by (simp add: x sellerCreditRow_def)
qed

lemma creditSellers_balance:
  "creditSellers orderId ordNumber now xs s = Inr s' \<Longrightarrow> distinct (map fst xs) \<Longrightarrow>
   walletBalance s' u t =
     (case map_of xs u of
        Some sc \<Rightarrow>
          if t = Some SELLER
          then map_option (\<lambda>b. b + (fsub (sc_orderAmount sc) (sc_amount sc))) (walletBalance s u t)
          else walletBalance s u t
      | None \<Rightarrow> walletBalance s u t)
   \<and> (\<forall>sid \<in> fst ` set xs. walletBalance s sid (Some SELLER) \<noteq> None)"
proof (induction xs arbitrary: s)
  case Nil
  then show ?case by simp
next
  case (Cons x xs)
  obtain sid sc where x: "x = (sid, sc)" by (cases x)
  let ?s1 = "s\<lparr>commissions := commissions s @ [newSellerCommission orderId now sid sc]\<rparr>"
  from Cons.prems x obtain s2 where
    credit: "creditWallet sid (Some SELLER) (fsub (sc_orderAmount sc) (sc_amount sc))
               (SaleProceeds ordNumber (sc_amount sc)) (Some orderId)
               (Some (length (commissions s))) ?s1 = Inr s2"
    and rest: "creditSellers orderId ordNumber now xs s2 = Inr s'"
    by (auto simp add: Let_def split: sum.splits)
  have fresh: "map_of xs sid = None" and d: "distinct (map fst xs)"
    using Cons.prems(2) x by (auto simp add: map_of_eq_None_iff)
  have b1: "walletBalance s sid (Some SELLER) \<noteq> None"
    using creditWallet_Inr(4) [OF credit] by simp
  have b2: "walletBalance s2 u' t' =
      (if u' = sid \<and> t' = Some SELLER
       then map_option (\<lambda>b. b + (fsub (sc_orderAmount sc) (sc_amount sc)))
              (walletBalance s sid (Some SELLER))
       else walletBalance s u' t')" for u' t'
    using creditWallet_Inr(5) [OF credit, of u' t'] by simp
  note ih = Cons.IH [OF rest d]
  have "walletBalance s' u t =
     (case map_of (x # xs) u of
        Some sc \<Rightarrow>
          if t = Some SELLER
          then map_option (\<lambda>b. b + (fsub (sc_orderAmount sc) (sc_amount sc))) (walletBalance s u t)
          else walletBalance s u t
      | None \<Rightarrow> walletBalance s u t)"
  proof (cases "u = sid")
    case True
    then show ?thesis
      using ih [THEN conjunct1] fresh by (simp add: x b2 split: option.splits)
  next
    case False
    then show ?thesis
      using ih [THEN conjunct1] by (simp add: x b2 split: option.splits)
  qed
  moreover have "\<forall>sid' \<in> fst ` set (x # xs). walletBalance s sid' (Some SELLER) \<noteq> None"
  proof
    fix sid' assume "sid' \<in> fst ` set (x # xs)"
    then consider "sid' = sid" | "sid' \<noteq> sid" "sid' \<in> fst ` set xs"
      using x by auto
    then show "walletBalance s sid' (Some SELLER) \<noteq> None"
    proof cases
      case 1
      then show ?thesis using b1 by simp
    next
      case 2
      then show ?thesis
        using ih [THEN conjunct2] by (auto simp add: b2)
    qed
  qed
  ultimately show ?case by blast
qed

subsection \<open>The accumulation per seller\<close>

lemma sellerItems_Cons:
  "sellerItems s (i # ids) sid =
     (case orderItems s i of
        None \<Rightarrow> sellerItems s ids sid
      | Some it \<Rightarrow>
          if item_seller it = sid then it # sellerItems s ids sid else sellerItems s ids sid)"
  by (simp add: sellerItems_def split: option.splits)

lemma runningSum_Cons:
  "runningSum acc (x # xs) =
     runningSum (case acc of None \<Rightarrow> Some x | Some a \<Rightarrow> Some (fadd a x)) xs"
  by (cases acc) simp_all

lemma loop_distinct:
  "distinct (map fst m) \<Longrightarrow> distinct (map fst (sellerCommissionsLoop s ids m))"
  by (induction ids arbitrary: m)
     (auto simp add: Let_def distinct_update split: option.splits)

lemma loop_orderAmount:
  "map_option sc_orderAmount (map_of (sellerCommissionsLoop s ids m) sid)
     = runningSum (map_option sc_orderAmount (map_of m sid))
         (map item_total (sellerItems s ids sid))"
proof (induction ids arbitrary: m)
  case Nil
  then show ?case by (simp add: sellerItems_def)
next
  case (Cons i ids)
  show ?case
  proof (cases "orderItems s i")
    case None
    then show ?thesis using Cons.IH by (simp add: sellerItems_Cons)
  next
    case (Some it)
    then show ?thesis
      using Cons.IH
      by (auto simp add: sellerItems_Cons runningSum_Cons Let_def update_conv'
          split: option.splits)
  qed
qed

lemma loop_amount:
  "map_option sc_amount (map_of (sellerCommissionsLoop s ids m) sid)
     = runningSum (map_option sc_amount (map_of m sid))
         (map (itemCommission (getSellerCommissionRate s sid))
            (map item_total (sellerItems s ids sid)))"
proof (induction ids arbitrary: m)
  case Nil
  then show ?case by (simp add: sellerItems_def)
next
  case (Cons i ids)
  show ?case
  proof (cases "orderItems s i")
    case None
    then show ?thesis using Cons.IH by (simp add: sellerItems_Cons)
  next
    case (Some it)
    then show ?thesis
      using Cons.IH
      by (auto simp add: sellerItems_Cons runningSum_Cons Let_def update_conv'
          itemCommission_def split: option.splits)
  qed
qed

lemma loop_rate:
  "\<forall>k sc. map_of m k = Some sc \<longrightarrow> sc_rate sc = getSellerCommissionRate s k \<Longrightarrow>
   map_of (sellerCommissionsLoop s ids m) sid = Some sc \<Longrightarrow>
   sc_rate sc = getSellerCommissionRate s sid"
proof (induction ids arbitrary: m)
  case Nil
  then show ?case by simp
next
  case (Cons i ids)
  show ?case
  proof (cases "orderItems s i")
    case None
    then show ?thesis using Cons.IH [OF Cons.prems(1)] Cons.prems(2) by simp
  next
    case (Some it)
    let ?m' = "case map_of m (item_seller it) of
        Some existing \<Rightarrow>
          AList.update (item_seller it)
            (existing\<lparr>sc_amount :=
                 fadd (sc_amount existing)
                   (fdiv (fmul (item_total it) (getSellerCommissionRate s (item_seller it))) 100),
               sc_orderAmount := fadd (sc_orderAmount existing) (item_total it)\<rparr>) m
      | None \<Rightarrow>
          AList.update (item_seller it)
            \<lparr>sc_amount =
               fdiv (fmul (item_total it) (getSellerCommissionRate s (item_seller it))) 100,
             sc_rate = getSellerCommissionRate s (item_seller it),
             sc_orderAmount = item_total it\<rparr> m"
    have inv: "\<forall>k sc. map_of ?m' k = Some sc \<longrightarrow> sc_rate sc = getSellerCommissionRate s k"
      using Cons.prems(1) by (auto simp add: update_conv' split: option.splits if_splits)
    have "map_of (sellerCommissionsLoop s ids ?m') sid = Some sc"
      using Cons.prems(2) Some by (simp add: Let_def)
    then show ?thesis
      by (rule Cons.IH [OF inv])
  qed
qed

subsection \<open>The transaction\<close>

lemma creditDeliveryBoy_Inr:
  assumes "creditDeliveryBoy orderId ordNumber now dco s = Inr s'"
  shows "commissions s' = commissions s @
           (case dco of None \<Rightarrow> [] | Some dc \<Rightarrow> [newDeliveryBoyCommission orderId now dc])"
    and "walletTransactions s' = walletTransactions s @
           (case dco of
              None \<Rightarrow> []
            | Some dc \<Rightarrow> [deliveryCreditRow orderId ordNumber (length (commissions s)) dc])"
    and "orders s' = orders s"
    and "walletBalance s' u t =
           (case dco of
              None \<Rightarrow> walletBalance s u t
            | Some dc \<Rightarrow>
                if u = dc_deliveryBoyId dc \<and> t = Some DELIVERY_BOY
                then map_option (\<lambda>b. b + dc_amount dc) (walletBalance s u t)
                else walletBalance s u t)"
    and "\<forall>dc. dco = Some dc \<longrightarrow>
           walletBalance s (dc_deliveryBoyId dc) (Some DELIVERY_BOY) \<noteq> None"
proof -
  have "commissions s' = commissions s @
           (case dco of None \<Rightarrow> [] | Some dc \<Rightarrow> [newDeliveryBoyCommission orderId now dc])
    \<and> walletTransactions s' = walletTransactions s @
           (case dco of
              None \<Rightarrow> []
            | Some dc \<Rightarrow> [deliveryCreditRow orderId ordNumber (length (commissions s)) dc])
    \<and> orders s' = orders s
    \<and> walletBalance s' u t =
           (case dco of
              None \<Rightarrow> walletBalance s u t
            | Some dc \<Rightarrow>
                if u = dc_deliveryBoyId dc \<and> t = Some DELIVERY_BOY
                then map_option (\<lambda>b. b + dc_amount dc) (walletBalance s u t)
                else walletBalance s u t)
    \<and> (\<forall>dc. dco = Some dc \<longrightarrow>
           walletBalance s (dc_deliveryBoyId dc) (Some DELIVERY_BOY) \<noteq> None)"
  proof (cases dco)
    case None
    then show ?thesis using assms by (simp add: creditDeliveryBoy_def)
  next
    case (Some dc)
    let ?s1 = "s\<lparr>commissions := commissions s @ [newDeliveryBoyCommission orderId now dc]\<rparr>"
    have credit: "creditWallet (dc_deliveryBoyId dc) (Some DELIVERY_BOY) (dc_amount dc)
        (CommissionForOrder ordNumber) (Some orderId) (Some (length (commissions s))) ?s1
        = Inr s'"
      using assms Some by (simp add: creditDeliveryBoy_def Let_def)
    show ?thesis
      using creditWallet_Inr(1-4) [OF credit] creditWallet_Inr(5) [OF credit, of u t]
      by (simp add: Some deliveryCreditRow_def)
  qed
  then show "commissions s' = commissions s @
           (case dco of None \<Rightarrow> [] | Some dc \<Rightarrow> [newDeliveryBoyCommission orderId now dc])"
    and "walletTransactions s' = walletTransactions s @
           (case dco of
              None \<Rightarrow> []
            | Some dc \<Rightarrow> [deliveryCreditRow orderId ordNumber (length (commissions s)) dc])"
    and "orders s' = orders s"
    and "walletBalance s' u t =
           (case dco of
              None \<Rightarrow> walletBalance s u t
            | Some dc \<Rightarrow>
                if u = dc_deliveryBoyId dc \<and> t = Some DELIVERY_BOY
                then map_option (\<lambda>b. b + dc_amount dc) (walletBalance s u t)
                else walletBalance s u t)"
    and "\<forall>dc. dco = Some dc \<longrightarrow>
           walletBalance s (dc_deliveryBoyId dc) (Some DELIVERY_BOY) \<noteq> None"
    by blast+
qed

lemma distributeBody_Inr:
  assumes "distributeBody s orderId now = Inr s'"
  obtains ord s1 where "orders s orderId = Some ord"
    and "order_status ord = ''Delivered''"
    and "findCommissions s orderId = []"
    and "creditSellers orderId (orderNumber ord) now
           (sellerCommissionsLoop s (order_items ord) []) s = Inr s1"
    and "creditDeliveryBoy orderId (orderNumber ord) now
           (map_option (deliveryCommission s ord) (order_deliveryBoy ord)) s1 = Inr s'"
proof (cases "orders s orderId")
  case None
  then show ?thesis using assms by (simp add: distributeBody_def)
next
  case (Some ord)
  from assms Some have st: "order_status ord = ''Delivered''"
    and nc: "findCommissions s orderId = []"
    by (auto simp add: distributeBody_def split: if_splits)
  from assms Some st nc obtain s1 where
    "creditSellers orderId (orderNumber ord) now
           (sellerCommissionsLoop s (order_items ord) []) s = Inr s1"
    "creditDeliveryBoy orderId (orderNumber ord) now
           (map_option (deliveryCommission s ord) (order_deliveryBoy ord)) s1 = Inr s'"
    by (auto simp add: distributeBody_def calculateOrderCommissions_def
        split: sum.splits option.splits)
  with Some st nc show ?thesis by (rule that)
qed


lemma distributeCommissions_success:
  assumes "distributeCommissions s orderId now = (Inr created, s')"
  obtains ord s1 where "orders s orderId = Some ord"
    and "order_status ord = ''Delivered''"
    and "findCommissions s orderId = []"
    and "creditSellers orderId (orderNumber ord) now
           (sellerCommissionsLoop s (order_items ord) []) s = Inr s1"
    and "creditDeliveryBoy orderId (orderNumber ord) now
           (map_option (deliveryCommission s ord) (order_deliveryBoy ord)) s1 = Inr s'"
    and "created = drop (length (commissions s)) (commissions s')"
proof -
  from assms have body: "distributeBody s orderId now = Inr s'"
    and cr: "created = drop (length (commissions s)) (commissions s')"
    by (auto simp add: distributeCommissions_def split: sum.splits)
  from body cr show ?thesis
    by (elim distributeBody_Inr) (rule that)
qed

text \<open>
  Claim C1, as the code has it. \<^verbatim>\<open>distributeCommissions\<close> fails with order-not-found when
  the order is absent, with the invalid-state error when its status is not
  \<^verbatim>\<open>Delivered\<close>, and with already-distributed when a Commission of the order exists; a
  failing call leaves the database as it was; and after a successful call that created
  at least one Commission every further call for the order fails with
  already-distributed.
\<close>

theorem distribution_guards:
  "(orders s orderId = None \<longrightarrow>
      distributeCommissions s orderId now = (Inl OrderNotFound, s))
   \<and> (orders s orderId = Some ord \<and> order_status ord \<noteq> ''Delivered'' \<longrightarrow>
      distributeCommissions s orderId now = (Inl NotDelivered, s))
   \<and> (orders s orderId = Some ord \<and> order_status ord = ''Delivered''
        \<and> findCommissions s orderId \<noteq> [] \<longrightarrow>
      distributeCommissions s orderId now = (Inl AlreadyDistributed, s))
   \<and> (fst (distributeCommissions s orderId now) = Inl e \<longrightarrow>
      snd (distributeCommissions s orderId now) = s)
   \<and> (distributeCommissions s orderId now = (Inr created, s') \<and> created \<noteq> [] \<longrightarrow>
      distributeCommissions s' orderId now' = (Inl AlreadyDistributed, s'))"
proof (intro conjI impI)
  assume "orders s orderId = None"
  then show "distributeCommissions s orderId now = (Inl OrderNotFound, s)"
    by (simp add: distributeCommissions_def distributeBody_def)
next
  assume "orders s orderId = Some ord \<and> order_status ord \<noteq> ''Delivered''"
  then show "distributeCommissions s orderId now = (Inl NotDelivered, s)"
    by (simp add: distributeCommissions_def distributeBody_def)
next
  assume "orders s orderId = Some ord \<and> order_status ord = ''Delivered''
        \<and> findCommissions s orderId \<noteq> []"
  then show "distributeCommissions s orderId now = (Inl AlreadyDistributed, s)"
    by (simp add: distributeCommissions_def distributeBody_def)
next
  assume "fst (distributeCommissions s orderId now) = Inl e"
  then show "snd (distributeCommissions s orderId now) = s"
    by (simp add: distributeCommissions_def split: sum.splits)
next
  assume a: "distributeCommissions s orderId now = (Inr created, s') \<and> created \<noteq> []"
  then obtain ord0 s1 where o: "orders s orderId = Some ord0"
    and st: "order_status ord0 = ''Delivered''"
    and cs: "creditSellers orderId (orderNumber ord0) now
           (sellerCommissionsLoop s (order_items ord0) []) s = Inr s1"
    and cd: "creditDeliveryBoy orderId (orderNumber ord0) now
           (map_option (deliveryCommission s ord0) (order_deliveryBoy ord0)) s1 = Inr s'"
    and cr: "created = drop (length (commissions s)) (commissions s')"
    by (auto elim: distributeCommissions_success)
  note f1 = creditSellers_Inr [OF cs]
  note f2 = creditDeliveryBoy_Inr(1,3) [OF cd]
  have o': "orders s' orderId = Some ord0"
    using o f1 f2 by simp
  have app: "commissions s' = commissions s @ created"
    using cr f1 f2 by simp
  have "\<forall>c \<in> set created. c_order c = orderId"
    using cr f1 f2
    by (auto simp add: newSellerCommission_def newDeliveryBoyCommission_def
        split: option.splits)
  with a have "findCommissions s' orderId \<noteq> []"
    by (cases created) (auto simp add: findCommissions_def app)
  with o' st show "distributeCommissions s' orderId now' = (Inl AlreadyDistributed, s')"
    by (simp add: distributeCommissions_def distributeBody_def)
qed

text \<open>
  Claim C1 as stated fails for a delivered order without items and without a delivery
  partner: nothing is created, so the guard never fires and the call succeeds again.
\<close>

theorem empty_order_distributes_twice:
  "distributeCommissions db_empty_order 1 0 = (Inr [], db_empty_order)
   \<and> distributeCommissions (snd (distributeCommissions db_empty_order 1 0)) 1 1
       = (Inr [], db_empty_order)"
  by (simp add: distributeCommissions_def distributeBody_def findCommissions_def
      calculateOrderCommissions_def creditDeliveryBoy_def db_empty_order_def)

text \<open>
  Claim C5, as the code has it. On a successful distribution every seller entry of the
  calculation gets a Paid Commission and one Credit row of the double
  \<^verbatim>\<open>orderAmount - commissionAmount\<close>, and the seller's balance grows by that net amount;
  the delivery partner gets a Credit row of the full commission amount and the balance
  grows by it. The seller's \<^verbatim>\<open>orderAmount\<close> is the running double sum of the totals of
  that seller's items, the \<^verbatim>\<open>commissionAmount\<close> the running double sum of their
  commissions \<^verbatim>\<open>total * rate / 100\<close> at the rate of \<^verbatim>\<open>getSellerCommissionRate\<close>. The
  credited net plus the commission differs from the \<^verbatim>\<open>orderAmount\<close> by the rounding of the
  subtraction only, at most the fraction \<open>2 ^ -53\<close> of the net amount.
\<close>

theorem distribution_credits:
  assumes "distributeCommissions s orderId now = (Inr created, s')"
    and "orders s orderId = Some ord"
    and "calculateOrderCommissions s orderId = Inr data"
  shows "created =
           map (\<lambda>(sid, sc). newSellerCommission orderId now sid sc) (oc_seller data) @
           (case oc_deliveryBoy data of
              None \<Rightarrow> []
            | Some dc \<Rightarrow> [newDeliveryBoyCommission orderId now dc])
    \<and> walletTransactions s' =
           walletTransactions s @
           map (sellerCreditRow orderId (orderNumber ord))
             (enumerate (length (commissions s)) (oc_seller data)) @
           (case oc_deliveryBoy data of
              None \<Rightarrow> []
            | Some dc \<Rightarrow>
                [deliveryCreditRow orderId (orderNumber ord)
                   (length (commissions s) + length (oc_seller data)) dc])
    \<and> (\<forall>(sid, sc) \<in> set (oc_seller data).
          walletBalance s sid (Some SELLER) \<noteq> None
          \<and> walletBalance s' sid (Some SELLER) =
              map_option (\<lambda>b. b + (fsub (sc_orderAmount sc) (sc_amount sc)))
                (walletBalance s sid (Some SELLER))
          \<and> Some (sc_orderAmount sc)
              = runningSum None (map item_total (sellerItems s (order_items ord) sid))
          \<and> Some (sc_amount sc)
              = runningSum None
                  (map (itemCommission (sc_rate sc))
                     (map item_total (sellerItems s (order_items ord) sid)))
          \<and> sc_rate sc = getSellerCommissionRate s sid
          \<and> \<bar>(fsub (sc_orderAmount sc) (sc_amount sc) + sc_amount sc) - sc_orderAmount sc\<bar>
              \<le> \<bar>sc_orderAmount sc - sc_amount sc\<bar> / 2 ^ 53)
    \<and> (\<forall>dc. oc_deliveryBoy data = Some dc \<longrightarrow>
          walletBalance s (dc_deliveryBoyId dc) (Some DELIVERY_BOY) \<noteq> None
          \<and> walletBalance s' (dc_deliveryBoyId dc) (Some DELIVERY_BOY) =
              map_option (\<lambda>b. b + dc_amount dc)
                (walletBalance s (dc_deliveryBoyId dc) (Some DELIVERY_BOY)))"
proof -
  let ?xs = "sellerCommissionsLoop s (order_items ord) []"
  let ?dco = "map_option (deliveryCommission s ord) (order_deliveryBoy ord)"
  from assms(3) assms(2) have data: "oc_seller data = ?xs" "oc_deliveryBoy data = ?dco"
    by (auto simp add: calculateOrderCommissions_def split: option.splits)
  from assms(1) assms(2) obtain s1 where
    cs: "creditSellers orderId (orderNumber ord) now ?xs s = Inr s1"
    and cd: "creditDeliveryBoy orderId (orderNumber ord) now ?dco s1 = Inr s'"
    and cr: "created = drop (length (commissions s)) (commissions s')"
    by (auto elim: distributeCommissions_success)
  have dist: "distinct (map fst ?xs)"
    by (rule loop_distinct) simp
  note f1 = creditSellers_Inr [OF cs]
  note f2 = creditDeliveryBoy_Inr [OF cd]
  note b1 = creditSellers_balance [OF cs dist]
  have 1: "created =
           map (\<lambda>(sid, sc). newSellerCommission orderId now sid sc) ?xs @
           (case ?dco of
              None \<Rightarrow> []
            | Some dc \<Rightarrow> [newDeliveryBoyCommission orderId now dc])"
    using cr f1 f2(1) by simp
  have 2: "walletTransactions s' =
           walletTransactions s @
           map (sellerCreditRow orderId (orderNumber ord))
             (enumerate (length (commissions s)) ?xs) @
           (case ?dco of
              None \<Rightarrow> []
            | Some dc \<Rightarrow>
                [deliveryCreditRow orderId (orderNumber ord)
                   (length (commissions s) + length ?xs) dc])"
  proof -
    have "length (commissions s1) = length (commissions s) + length ?xs"
      using f1 by simp
    then show ?thesis
      using f1 f2(2) by (simp split: option.splits)
  qed
  have 3: "walletBalance s sid (Some SELLER) \<noteq> None
          \<and> walletBalance s' sid (Some SELLER) =
              map_option (\<lambda>b. b + (fsub (sc_orderAmount sc) (sc_amount sc)))
                (walletBalance s sid (Some SELLER))
          \<and> Some (sc_orderAmount sc)
              = runningSum None (map item_total (sellerItems s (order_items ord) sid))
          \<and> Some (sc_amount sc)
              = runningSum None
                  (map (itemCommission (sc_rate sc))
                     (map item_total (sellerItems s (order_items ord) sid)))
          \<and> sc_rate sc = getSellerCommissionRate s sid
          \<and> \<bar>(fsub (sc_orderAmount sc) (sc_amount sc) + sc_amount sc) - sc_orderAmount sc\<bar>
              \<le> \<bar>sc_orderAmount sc - sc_amount sc\<bar> / 2 ^ 53"
    if m: "(sid, sc) \<in> set ?xs" for sid sc
  proof -
    from m dist have mo: "map_of ?xs sid = Some sc" by simp
    have "walletBalance s sid (Some SELLER) \<noteq> None"
      using b1 [THEN conjunct2] m by force
    moreover have "walletBalance s1 sid (Some SELLER) =
              map_option (\<lambda>b. b + (fsub (sc_orderAmount sc) (sc_amount sc)))
                (walletBalance s sid (Some SELLER))"
      using b1 [of sid "Some SELLER", THEN conjunct1] mo by simp
    then have "walletBalance s' sid (Some SELLER) =
              map_option (\<lambda>b. b + (fsub (sc_orderAmount sc) (sc_amount sc)))
                (walletBalance s sid (Some SELLER))"
      using f2(4) [of sid "Some SELLER"] by (simp split: option.splits)
    moreover have "Some (sc_orderAmount sc)
        = runningSum None (map item_total (sellerItems s (order_items ord) sid))"
      using loop_orderAmount [of s "order_items ord" "[]" sid] mo by simp
    moreover have r: "sc_rate sc = getSellerCommissionRate s sid"
      using loop_rate [of "[]" s "order_items ord" sid sc] mo by simp
    moreover have "Some (sc_amount sc)
        = runningSum None
            (map (itemCommission (sc_rate sc))
               (map item_total (sellerItems s (order_items ord) sid)))"
      using loop_amount [of s "order_items ord" "[]" sid] mo by (simp add: r)
    moreover note net_plus_commission_error [of "sc_orderAmount sc" "sc_amount sc"]
    ultimately show ?thesis by simp
  qed
  have 4: "walletBalance s (dc_deliveryBoyId dc) (Some DELIVERY_BOY) \<noteq> None
          \<and> walletBalance s' (dc_deliveryBoyId dc) (Some DELIVERY_BOY) =
              map_option (\<lambda>b. b + dc_amount dc)
                (walletBalance s (dc_deliveryBoyId dc) (Some DELIVERY_BOY))"
    if d: "?dco = Some dc" for dc
  proof -
    have e: "walletBalance s1 (dc_deliveryBoyId dc) (Some DELIVERY_BOY)
        = walletBalance s (dc_deliveryBoyId dc) (Some DELIVERY_BOY)"
      using b1 [of "dc_deliveryBoyId dc" "Some DELIVERY_BOY", THEN conjunct1]
      by (simp split: option.splits)
    show ?thesis
      using f2(5) f2(4) [of "dc_deliveryBoyId dc" "Some DELIVERY_BOY"] d e by simp
  qed
  show ?thesis
    unfolding data using 1 2 3 4 by blast
qed


lemmas distribute_eval_defs =
  distributeCommissions_def distributeBody_def findCommissions_def
  calculateOrderCommissions_def deliveryCommission_def distanceBasedRate_def
  getSellerCommissionRate_def getDeliveryBoyCommissionRate_def creditDeliveryBoy_def
  creditWallet_def debitWallet_def walletBalance_def setBalance_def ledgerRow_def
  roundTo2Decimals_def double_evals newSellerCommission_def newDeliveryBoyCommission_def

lemma distribute_reversal_eval:
  "distributeCommissions db_reversal 1 0 = (Inr (commissions db_distributed), db_distributed)"
  by (simp add: db_distributed_def distribute_eval_defs db_reversal_def item_reversal_def
      order_reversal_def)

lemma calculate_reversal_eval:
  "calculateOrderCommissions db_reversal 1 = Inr data_reversal"
  by (simp add: distribute_eval_defs db_reversal_def item_reversal_def
      order_reversal_def data_reversal_def)

theorem distribution_credits_witness:
  "distributeCommissions db_reversal 1 0 = (Inr (commissions db_distributed), db_distributed)
   \<and> orders db_reversal 1 = Some order_reversal
   \<and> calculateOrderCommissions db_reversal 1 = Inr data_reversal
   \<and> map c_commissionAmount (commissions db_distributed) = [10, 5]
   \<and> map wt_amount (walletTransactions db_distributed) = [90, 5]
   \<and> walletBalance db_reversal 1 (Some SELLER) = Some 0
   \<and> walletBalance db_distributed 1 (Some SELLER) = Some 90
   \<and> runningSum None (map item_total (sellerItems db_reversal (order_items order_reversal) 1))
       = Some 100
   \<and> runningSum None
         (map (itemCommission 10)
            (map item_total (sellerItems db_reversal (order_items order_reversal) 1)))
       = Some 10
   \<and> walletBalance db_reversal 2 (Some DELIVERY_BOY) = Some 0
   \<and> walletBalance db_distributed 2 (Some DELIVERY_BOY) = Some 5"
proof -
  have o: "orders db_reversal 1 = Some order_reversal"
    by (simp add: db_reversal_def)
  have b: "walletBalance db_reversal 1 (Some SELLER) = Some 0"
    "walletBalance db_reversal 2 (Some DELIVERY_BOY) = Some 0"
    "walletTransactions db_reversal = []"
    by (simp_all add: db_reversal_def walletBalance_def)
  show ?thesis
    using distribution_credits [OF distribute_reversal_eval o calculate_reversal_eval]
      distribute_reversal_eval o calculate_reversal_eval b
    by (simp add: data_reversal_def
        newSellerCommission_def newDeliveryBoyCommission_def sellerCreditRow_def
        deliveryCreditRow_def ledgerRow_def double_evals)
qed

theorem distribution_guards_witness:
  "orders db_reversal 9 = None
   \<and> distributeCommissions db_reversal 9 0 = (Inl OrderNotFound, db_reversal)
   \<and> orders db_undelivered 1 = Some order_undelivered
   \<and> order_status order_undelivered \<noteq> ''Delivered''
   \<and> distributeCommissions db_undelivered 1 0 = (Inl NotDelivered, db_undelivered)
   \<and> distributeCommissions db_reversal 1 0 = (Inr (commissions db_distributed), db_distributed)
   \<and> commissions db_distributed \<noteq> []
   \<and> distributeCommissions db_distributed 1 1 = (Inl AlreadyDistributed, db_distributed)"
proof -
  have 1: "orders db_reversal 9 = None"
    by (simp add: db_reversal_def)
  have 2: "orders db_undelivered 1 = Some order_undelivered"
    "order_status order_undelivered \<noteq> ''Delivered''"
    by (simp_all add: db_undelivered_def order_undelivered_def)
  have 3: "commissions db_distributed \<noteq> []"
    using distribute_reversal_eval
    by (auto simp add: distribute_eval_defs db_reversal_def item_reversal_def
      order_reversal_def)
  show ?thesis
    using distribution_guards [of db_reversal 9 0 order_reversal OrderNotFound "[]" db_reversal 0]
      distribution_guards [of db_undelivered 1 0 order_undelivered NotDelivered "[]" db_reversal 0]
      distribution_guards [of db_reversal 1 0 order_reversal OrderNotFound
        "commissions db_distributed" db_distributed 1]
      1 2 3 distribute_reversal_eval
    by simp
qed

text \<open>
  Claim C5 as stated fails in the code's arithmetic: for one item whose total is the
  double written 1.14, at 10\%, the commission is 0.11399999999999999 and the credited
  net 1.0259999999999998; their sum, exact or in doubles, is not the item total.
\<close>

theorem net_plus_commission_is_not_total:
  "map c_commissionAmount (commissions (snd (distributeCommissions db_drift 1 0)))
     = [1026820715040473 / 9007199254740992]
   \<and> map wt_amount (walletTransactions (snd (distributeCommissions db_drift 1 0)))
     = [288793326105133 / 281474976710656]
   \<and> sellerItemTotal db_drift [7] 1 = 5134103575202365 / 4503599627370496
   \<and> 288793326105133 / 281474976710656 + 1026820715040473 / 9007199254740992
       \<noteq> (5134103575202365 / 4503599627370496 :: rat)
   \<and> fadd (288793326105133 / 281474976710656) (1026820715040473 / 9007199254740992)
       \<noteq> 5134103575202365 / 4503599627370496"
  by (simp add: distribute_eval_defs db_drift_def db_reversal_def item_drift_def
      item_reversal_def order_reversal_def sellerItemTotal_def sellerItems_def Let_def)

section \<open>The two commission paths: properties\<close>

lemma firstPositive_append:
  "firstPositive (xs @ ys) d =
     (if firstPositive xs 0 = 0 then firstPositive ys d else firstPositive xs 0)"
proof (induction xs)
  case Nil
  then show ?case by simp
next
  case (Cons x xs)
  then show ?case by (cases x) auto
qed

lemma rates_agree:
  assumes "pathsAgreeOn s item" and "sellers s (item_seller item) = Some sl"
  shows "itemCommissionRate s sl item = getSellerCommissionRate s (item_seller item)"
proof -
  have "itemCommissionRate s sl item
      = firstPositive (classificationRates s item @ [seller_commission sl]) 10"
    by (simp add: itemCommissionRate_priority resolveSellerRate_spec_def)
  also have "\<dots> = firstPositive [seller_commission sl] 10"
    using assms by (simp add: firstPositive_append pathsAgreeOn_def)
  also have "\<dots> = getSellerCommissionRate s (item_seller item)"
    using assms
    by (cases "seller_commissionRate sl")
       (simp_all add: pathsAgreeOn_def getSellerCommissionRate_def)
  finally show ?thesis .
qed

text \<open>
  Claim C4, as the code has it. For an item whose seller exists, whose product has no
  positive classification override and whose seller carries the same rate in
  \<^verbatim>\<open>commission\<close> and \<^verbatim>\<open>commissionRate\<close> (unset or positive), the eager path and the
  batched path resolve the same rate and compute the same commission amount, the double
  \<^verbatim>\<open>total * rate / 100\<close>, which neither path rounds further: the Commission the eager
  path writes for the item and the entry the batched calculation makes for it carry that
  rate and that amount.
\<close>

theorem paths_agree_without_overrides:
  assumes "orderItems s (item_id item) = Some item" and "pathsAgreeOn s item"
  shows "(\<forall>sl. sellers s (item_seller item) = Some sl \<longrightarrow>
            itemCommissionRate s sl item = getSellerCommissionRate s (item_seller item))
    \<and> map commissionRateView
          (drop (length (commissions s)) (commissions (snd (createFirstPass [item] [] s))))
        = [(Some (item_seller item), getSellerCommissionRate s (item_seller item),
            itemCommission (getSellerCommissionRate s (item_seller item)) (item_total item))]
    \<and> sellerCommissionsLoop s [item_id item] []
        = [(item_seller item,
            \<lparr>sc_amount =
               itemCommission (getSellerCommissionRate s (item_seller item)) (item_total item),
             sc_rate = getSellerCommissionRate s (item_seller item),
             sc_orderAmount = item_total item\<rparr>)]"
proof -
  from assms(2) obtain sl where sl: "sellers s (item_seller item) = Some sl"
    by (auto simp add: pathsAgreeOn_def split: option.splits)
  have rate: "itemCommissionRate s sl item = getSellerCommissionRate s (item_seller item)"
    using rates_agree [OF assms(2) sl] .
  have 1: "\<forall>sl'. sellers s (item_seller item) = Some sl' \<longrightarrow>
            itemCommissionRate s sl' item = getSellerCommissionRate s (item_seller item)"
    using sl rate by simp
  have 2: "map commissionRateView
          (drop (length (commissions s)) (commissions (snd (createFirstPass [item] [] s))))
        = [(Some (item_seller item), getSellerCommissionRate s (item_seller item),
            itemCommission (getSellerCommissionRate s (item_seller item)) (item_total item))]"
    using sl rate by (simp add: Let_def commissionRateView_def itemCommission_def)
  have 3: "sellerCommissionsLoop s [item_id item] []
        = [(item_seller item,
            \<lparr>sc_amount =
               itemCommission (getSellerCommissionRate s (item_seller item)) (item_total item),
             sc_rate = getSellerCommissionRate s (item_seller item),
             sc_orderAmount = item_total item\<rparr>)]"
    using assms(1) by (simp add: Let_def itemCommission_def)
  from 1 2 3 show ?thesis by blast
qed

theorem paths_agree_without_overrides_witness:
  "orderItems db_agree (item_id item_priority) = Some item_priority
   \<and> pathsAgreeOn db_agree item_priority
   \<and> sellers db_agree (item_seller item_priority) = Some seller_priority
   \<and> itemCommissionRate db_agree seller_priority item_priority = 15
   \<and> getSellerCommissionRate db_agree (item_seller item_priority) = 15
   \<and> itemCommission 15 (item_total item_priority) = 15
   \<and> map commissionRateView (commissions (snd (createFirstPass [item_priority] [] db_agree)))
       = [(Some 1, 15, 15)]
   \<and> sellerCommissionsLoop db_agree [7] []
       = [(1, \<lparr>sc_amount = 15, sc_rate = 15, sc_orderAmount = 100\<rparr>)]"
proof -
  have h: "orderItems db_agree (item_id item_priority) = Some item_priority"
    "pathsAgreeOn db_agree item_priority"
    by (simp_all add: db_agree_def db_priority_def item_priority_def pathsAgreeOn_def
        classificationRates_def seller_priority_def)
  have i: "item_id item_priority = 7" "item_seller item_priority = 1"
    "item_total item_priority = 100" "commissions db_agree = []"
    "sellers db_agree 1 = Some seller_priority"
    "getSellerCommissionRate db_agree 1 = 15"
    "itemCommission 15 100 = 15"
    by (simp_all add: item_priority_def db_agree_def db_priority_def seller_priority_def
        getSellerCommissionRate_def itemCommission_def double_evals)
  show ?thesis
    using paths_agree_without_overrides [OF h] h i
    by (simp add: Let_def double_evals commissionRateView_def itemCommission_def)
qed

text \<open>The agreement is per item. What the paths accumulate per seller is not part of it:
  the eager path adds up the net amounts of the items, the batched path subtracts the
  accumulated commission from the accumulated order amount, and for the totals 0.7 and
  0.1 at 10\% the first gives 0.7199999999999999 and the second 0.72.\<close>

lemma accumulated_net_differs:
  "pathsAgreeOn db_two_items item_a \<and> pathsAgreeOn db_two_items item_b
   \<and> map earningsView (fst (createFirstPass [item_a, item_b] [] db_two_items))
       = [(1, 7205759403792793 / 9007199254740992, 5764607523034235 / 72057594037927936,
           6485183463413513 / 9007199254740992)]
   \<and> map commissionView (sellerCommissionsLoop db_two_items [7, 8] [])
       = [(1, 7205759403792793 / 9007199254740992, 5764607523034235 / 72057594037927936,
           3242591731706757 / 4503599627370496)]
   \<and> fl (18 / 25) = 3242591731706757 / 4503599627370496"
proof -
  have "fl (18 / 25) = 3242591731706757 / 4503599627370496"
    by code_simp
  then show ?thesis
    by (simp add: pathsAgreeOn_def classificationRates_def earningsView_def commissionView_def
        itemCommissionRate_def getSellerCommissionRate_def db_two_items_def db_reversal_def
        item_a_def item_b_def item_reversal_def Let_def double_evals_two_items)
qed

text \<open>
  Claim C4 as stated fails: for a product whose category carries 20\% and a seller
  without a rate of its own, the eager path records 20\% and 20 on an item of 100, the
  batched path 10\% and 10.
\<close>

theorem category_override_splits_paths:
  "map commissionRateView (commissions (createCommissions [item_priority] db_category))
     = [(Some 1, 20, 20)]
   \<and> map earningsView (fst (createFirstPass [item_priority] [] db_category))
     = [(1, 100, 20, 80)]
   \<and> map commissionView (sellerCommissionsLoop db_category [7] []) = [(1, 100, 10, 90)]
   \<and> map commissionRateView (commissions (snd (distributeCommissions db_category 1 0)))
     = [(Some 1, 10, 10)]"
  by (simp add: createCommissions_def itemCommissionRate_def levelRate_def overrideRate_def
      truthy_def commissionRateView_def earningsView_def commissionView_def
      db_category_def db_priority_def item_priority_def distributeCommissions_def
      distributeBody_def findCommissions_def calculateOrderCommissions_def
      getSellerCommissionRate_def creditDeliveryBoy_def creditWallet_def walletBalance_def
      setBalance_def ledgerRow_def newSellerCommission_def Let_def double_evals)

end
